theory Spec2Isabelle
  imports Complex_Main "HOL-Library.Multiset"
begin

section \<open>Batched beam search: data model\<close>

text \<open>
  The development embeds \<^verbatim>\<open>beam_search\<close> of
  \<^verbatim>\<open>universal_ml_utils/decoding/beam.py\<close>. Python floats are idealised: a score is a
  \<^typ>\<open>real\<close>, and a logit or log-probability is a real or the value \<^verbatim>\<open>-inf\<close> that the
  code tests for with \<^verbatim>\<open>torch.isneginf\<close>. Rounding, \<^verbatim>\<open>nan\<close> and \<^verbatim>\<open>+inf\<close> are not modelled.
\<close>

datatype pyfloat = NegInf | Fin real

datatype error = AssertionError string | ValueError | IndexError | StopIteration | RuntimeError

datatype reason = Done | Length

text \<open>
  Modelled from the spec: the class \<^verbatim>\<open>Beam\<close> of \<^verbatim>\<open>universal_ml_utils.decoding.utils\<close>,
  which \<^verbatim>\<open>beam.py\<close> imports. Its fields are those of section 3 of the specification
  (\<^verbatim>\<open>token_ids\<close>, \<^verbatim>\<open>log_probs\<close>, \<^verbatim>\<open>initial_length\<close>, the cache slot \<^verbatim>\<open>cache\<close>,
  \<^verbatim>\<open>stop_reason\<close>). A beam is a value here: \<^verbatim>\<open>clone\<close> returns a beam with the same
  fields, and an in-place \<^verbatim>\<open>add\<close> on a shared object is written out where the code
  shares it within one row (the single-beam path of the expansion). An object that
  occurs in several rows is not represented: the alive beams of a round are taken to
  be different objects, which they are unless the caller gives one \<^verbatim>\<open>Beam\<close> object for
  several batch elements or a callback returns one object for several candidates.
\<close>

record beam =
  token_ids :: "int list"
  log_probs :: "pyfloat list"
  initial_length :: nat
  cache :: "nat option"
  stop_reason :: "reason option"

text \<open>Modelled from the spec: \<^verbatim>\<open>Beam(init)\<close>, a beam built from seed token ids.\<close>

definition Beam :: "int list \<Rightarrow> beam" where
  "Beam ids = \<lparr>token_ids = ids, log_probs = [], initial_length = length ids,
               cache = None, stop_reason = None\<rparr>"

text \<open>Modelled from the spec: \<^verbatim>\<open>len(beam)\<close>, the number of tokens.\<close>

definition beam_len :: "beam \<Rightarrow> int" where
  "beam_len b = int (length (token_ids b))"

text \<open>Modelled from the spec: \<^verbatim>\<open>decoded_length = len(token_ids) - initial_length\<close>.\<close>

definition decoded_length :: "beam \<Rightarrow> int" where
  "decoded_length b = int (length (token_ids b)) - int (initial_length b)"

text \<open>Modelled from the spec: \<^verbatim>\<open>add(token_id, log_prob)\<close> appends one token and its
  log-probability.\<close>

definition add :: "beam \<Rightarrow> int \<Rightarrow> pyfloat \<Rightarrow> beam" where
  "add b tok lp = b\<lparr>token_ids := token_ids b @ [tok], log_probs := log_probs b @ [lp]\<rparr>"

text \<open>Modelled from the spec: \<^verbatim>\<open>clone()\<close>, an independent copy with the same contents.\<close>

definition clone :: "beam \<Rightarrow> beam" where
  "clone b = b"

text \<open>Modelled from the spec: \<^verbatim>\<open>last_token_id\<close>, the most recently appended token;
  reading it from an empty sequence raises.\<close>

definition last_token_id :: "beam \<Rightarrow> error + int" where
  "last_token_id b = (if token_ids b = [] then Inl IndexError else Inr (last (token_ids b)))"

text \<open>Modelled from the spec: the truth value of a beam in \<^verbatim>\<open>if b\<close>; the class defines
  \<^verbatim>\<open>__len__\<close>, so a beam is true when it has at least one token.\<close>

definition truthy :: "beam \<Rightarrow> bool" where
  "truthy b = (token_ids b \<noteq> [])"

text \<open>The tensors of one decoding call, as lists of rows.\<close>

record model_input =
  input_ids :: "int list list"
  position_ids :: "int list list"
  pad_mask :: "bool list list"

text \<open>The keyword parameters of \<^verbatim>\<open>beam_search\<close> that are plain values.\<close>

record config =
  pad_token_id :: int
  max_length :: int
  beam_width :: int
  stop_condition :: string
  max_new_tokens :: "int option"
  yield_intermediate :: bool
  return_unfinished :: bool

text \<open>
  The callbacks of \<^verbatim>\<open>beam_search\<close>, all pure functions here. \<^verbatim>\<open>log_softmax\<close> stands
  for \<^verbatim>\<open>torch.log_softmax(_, dim=-1)\<close>; \<^verbatim>\<open>score_fn\<close> takes the optional length as an
  option; \<^verbatim>\<open>'c\<close> is the type of the opaque cache handle.
\<close>

record 'c env =
  decode_fn :: "model_input \<Rightarrow> 'c option \<Rightarrow> pyfloat list list \<times> 'c option"
  stop_fn :: "beam \<Rightarrow> bool"
  sample_fn :: "pyfloat list list \<Rightarrow> int \<Rightarrow> int list list \<times> pyfloat list list"
  update_fn :: "beam \<Rightarrow> beam option"
  score_fn :: "beam \<Rightarrow> int option \<Rightarrow> real"
  logit_fns :: "(pyfloat list list \<Rightarrow> beam list \<Rightarrow> pyfloat list list) list option"
  cache_fn :: "('c \<Rightarrow> nat list \<Rightarrow> int list \<Rightarrow> 'c) option"
  log_softmax :: "pyfloat list list \<Rightarrow> pyfloat list list"

text \<open>The three per-element lists that the nested functions of \<^verbatim>\<open>beam_search\<close> share.\<close>

record lists =
  current_beams :: "beam list list"
  finished_beams :: "beam list list"
  too_long_beams :: "beam list list"

section \<open>Helpers for Python's built-ins\<close>

text \<open>\<^verbatim>\<open>xs[i]\<close> for a non-negative index: out of range raises \<^verbatim>\<open>IndexError\<close>.\<close>

definition getitem :: "'a list \<Rightarrow> nat \<Rightarrow> error + 'a" where
  "getitem xs i = (if i < length xs then Inr (xs ! i) else Inl IndexError)"

text \<open>\<^verbatim>\<open>max(xs)\<close> with no default: the empty sequence raises \<^verbatim>\<open>ValueError\<close>.\<close>

fun py_max :: "('a::linorder) list \<Rightarrow> error + 'a" where
  "py_max [] = Inl ValueError"
| "py_max (x # xs) = Inr (fold max xs x)"

text \<open>\<^verbatim>\<open>min(xs, default=float("-inf"))\<close>: \<^const>\<open>None\<close> stands for the default.\<close>

fun py_min_default :: "real list \<Rightarrow> real option" where
  "py_min_default [] = None"
| "py_min_default (x # xs) = Some (fold min xs x)"

text \<open>\<^verbatim>\<open>worst_finished >= best_current\<close>, where \<^verbatim>\<open>-inf\<close> is below every score.\<close>

fun worst_ge :: "real option \<Rightarrow> real \<Rightarrow> bool" where
  "worst_ge None best = False"
| "worst_ge (Some w) best = (w \<ge> best)"

text \<open>\<^verbatim>\<open>sorted(xs, key=score_fn, reverse=True)\<close>: descending and stable.\<close>

definition sorted_desc :: "(beam \<Rightarrow> real) \<Rightarrow> beam list \<Rightarrow> beam list" where
  "sorted_desc key xs = sort_key (\<lambda>b. - key b) xs"

text \<open>\<^verbatim>\<open>xs[:n]\<close>: a negative bound counts from the end.\<close>

definition slice_to :: "'a list \<Rightarrow> int \<Rightarrow> 'a list" where
  "slice_to xs n = (if 0 \<le> n then take (nat n) xs else take (length xs - nat (- n)) xs)"

section \<open>The filter step\<close>

text \<open>\<^verbatim>\<open>too_long\<close>, lines 71 to 77.\<close>

definition too_long :: "config \<Rightarrow> beam \<Rightarrow> bool" where
  "too_long cfg b =
     (if beam_len b \<ge> max_length cfg then True
      else case max_new_tokens cfg of
             None \<Rightarrow> False
           | Some n \<Rightarrow> decoded_length b \<ge> n)"

text \<open>
  The inner loop of \<^verbatim>\<open>filter_beams\<close>, lines 82 to 90, over the alive beams of one
  element; the accumulator is the element's finished list, its too-long list and
  \<^verbatim>\<open>new_beams\<close>.
\<close>

fun classify :: "'c env \<Rightarrow> config \<Rightarrow> beam list \<Rightarrow> beam list \<times> beam list \<times> beam list
                 \<Rightarrow> beam list \<times> beam list \<times> beam list" where
  "classify env cfg [] acc = acc"
| "classify env cfg (b # bs) (fin, lng, new) =
     (if stop_fn env b then
        classify env cfg bs (fin @ [b\<lparr>stop_reason := Some Done\<rparr>], lng, new)
      else if too_long cfg b then
        classify env cfg bs (fin, lng @ [b\<lparr>stop_reason := Some Length\<rparr>], new)
      else classify env cfg bs (fin, lng, new @ [b]))"

text \<open>\<^verbatim>\<open>max_new_tokens or max_decoded_length\<close>: \<^verbatim>\<open>None\<close> and \<^verbatim>\<open>0\<close> are false.\<close>

definition or_default :: "int option \<Rightarrow> int \<Rightarrow> int" where
  "or_default m d = (case m of None \<Rightarrow> d | Some n \<Rightarrow> if n = 0 then d else n)"

text \<open>Lines 119 to 121: the projected length of the \<^verbatim>\<open>max_score\<close> condition, from the
  first alive beam.\<close>

definition projected_length :: "config \<Rightarrow> beam \<Rightarrow> int" where
  "projected_length cfg current =
     (let max_decoded_length = max_length cfg - int (initial_length current)
      in min max_decoded_length (or_default (max_new_tokens cfg) max_decoded_length))"

text \<open>Lines 110 to 122: \<^verbatim>\<open>best_current\<close>.\<close>

definition best_current :: "'c env \<Rightarrow> config \<Rightarrow> beam list \<Rightarrow> error + real" where
  "best_current env cfg alive =
     (if stop_condition cfg = ''estimated_score'' then
        py_max (map (\<lambda>b. score_fn env b None) alive)
      else case alive of
             [] \<Rightarrow> Inl StopIteration
           | current # _ \<Rightarrow>
               py_max (map (\<lambda>b. score_fn env b (Some (projected_length cfg current)))
                         (filter truthy alive)))"

text \<open>
  The body of the outer loop of \<^verbatim>\<open>filter_beams\<close>, lines 81 to 126, for one element:
  from its alive, finished and too-long lists to the new ones.
\<close>

definition filter_element :: "'c env \<Rightarrow> config \<Rightarrow> beam list \<Rightarrow> beam list \<Rightarrow> beam list
                              \<Rightarrow> error + beam list \<times> beam list \<times> beam list" where
  "filter_element env cfg cur fin lng =
     (case classify env cfg cur (fin, lng, []) of
        (fin', lng', new_beams) \<Rightarrow>
          if new_beams = [] then Inr (new_beams, fin', lng')
          else if int (length fin') < beam_width cfg then Inr (new_beams, fin', lng')
          else if stop_condition cfg = ''max_outputs'' then Inr ([], fin', lng')
          else
            let worst_finished = py_min_default (map (\<lambda>b. score_fn env b None) fin')
            in (case best_current env cfg new_beams of
                  Inl e \<Rightarrow> Inl e
                | Inr best \<Rightarrow>
                    if worst_ge worst_finished best then Inr ([], fin', lng')
                    else Inr (new_beams, fin', lng')))"

text \<open>The outer loop of \<^verbatim>\<open>filter_beams\<close>, lines 80 to 126, over the given indices.\<close>

fun filter_loop :: "'c env \<Rightarrow> config \<Rightarrow> nat list \<Rightarrow> lists \<Rightarrow> error + lists" where
  "filter_loop env cfg [] L = Inr L"
| "filter_loop env cfg (idx # rest) L =
     (case getitem (current_beams L) idx of Inl e \<Rightarrow> Inl e | Inr cur \<Rightarrow>
     (case getitem (finished_beams L) idx of Inl e \<Rightarrow> Inl e | Inr fin \<Rightarrow>
     (case getitem (too_long_beams L) idx of Inl e \<Rightarrow> Inl e | Inr lng \<Rightarrow>
     (case filter_element env cfg cur fin lng of Inl e \<Rightarrow> Inl e
      | Inr (cur', fin', lng') \<Rightarrow>
          filter_loop env cfg rest
            (L\<lparr>current_beams := (current_beams L)[idx := cur'],
               finished_beams := (finished_beams L)[idx := fin'],
               too_long_beams := (too_long_beams L)[idx := lng']\<rparr>)))))"

text \<open>Lines 128 to 133: the flattened alive beams and their owners' indices.\<close>

definition flatten_beams :: "nat \<Rightarrow> beam list list \<Rightarrow> error + beam list \<times> nat list" where
  "flatten_beams batch_size cur =
     (if batch_size \<le> length cur then
        Inr (concat (map (\<lambda>idx. cur ! idx) [0..<batch_size]),
             concat (map (\<lambda>idx. replicate (length (cur ! idx)) idx) [0..<batch_size]))
      else Inl IndexError)"

text \<open>\<^verbatim>\<open>filter_beams\<close>, lines 79 to 133: the updated lists, \<^verbatim>\<open>beams\<close> and \<^verbatim>\<open>indices\<close>.\<close>

definition filter_beams :: "'c env \<Rightarrow> config \<Rightarrow> nat \<Rightarrow> lists
                            \<Rightarrow> error + lists \<times> beam list \<times> nat list" where
  "filter_beams env cfg batch_size L =
     (case filter_loop env cfg [0..<batch_size] L of
        Inl e \<Rightarrow> Inl e
      | Inr L' \<Rightarrow>
          (case flatten_beams batch_size (current_beams L') of
             Inl e \<Rightarrow> Inl e
           | Inr (beams, indices) \<Rightarrow> Inr (L', beams, indices)))"

section \<open>Output assembly\<close>

text \<open>
  The loop of \<^verbatim>\<open>get_outputs\<close>, lines 137 to 145. The local \<^verbatim>\<open>finished\<close> is the list
  object \<^verbatim>\<open>finished_beams[batch_idx]\<close> itself, so \<^verbatim>\<open>finished.extend\<close> changes the
  shared list: the lists are returned with that entry updated.
\<close>

fun get_outputs_loop :: "'c env \<Rightarrow> config \<Rightarrow> nat list \<Rightarrow> lists \<Rightarrow> beam list list
                         \<Rightarrow> error + lists \<times> beam list list" where
  "get_outputs_loop env cfg [] L outputs = Inr (L, outputs)"
| "get_outputs_loop env cfg (batch_idx # rest) L outputs =
     (case getitem (finished_beams L) batch_idx of Inl e \<Rightarrow> Inl e | Inr finished \<Rightarrow>
     (case (if return_unfinished cfg \<and> int (length finished) < beam_width cfg then
              (case getitem (too_long_beams L) batch_idx of Inl e \<Rightarrow> Inl e
               | Inr lng \<Rightarrow>
                   Inr (finished @
                        slice_to (sorted_desc (\<lambda>b. score_fn env b None) lng)
                          (beam_width cfg - int (length finished))))
            else Inr finished) of
        Inl e \<Rightarrow> Inl e
      | Inr extended \<Rightarrow>
          get_outputs_loop env cfg rest
            (L\<lparr>finished_beams := (finished_beams L)[batch_idx := extended]\<rparr>)
            (outputs @
             [slice_to (sorted_desc (\<lambda>b. score_fn env b None) extended) (beam_width cfg)])))"

text \<open>\<^verbatim>\<open>get_outputs\<close>, lines 135 to 147: the lists after the call and the outputs.\<close>

definition get_outputs :: "'c env \<Rightarrow> config \<Rightarrow> nat \<Rightarrow> lists \<Rightarrow> error + lists \<times> beam list list" where
  "get_outputs env cfg batch_size L = get_outputs_loop env cfg [0..<batch_size] L []"

section \<open>One round of the loop\<close>

text \<open>
  The calls that a run makes to its collaborators, in order: \<^verbatim>\<open>cache_fn\<close> with its three
  arguments, \<^verbatim>\<open>torch.cuda.empty_cache\<close>, and \<^verbatim>\<open>decode_fn\<close> with the tensors and the cache
  it is given.
\<close>

datatype 'c event =
  CacheFnCall 'c "nat list" "int list"
| EmptyCache
| DecodeFnCall model_input "'c option"

text \<open>\<^verbatim>\<open>torch.cumsum(pad_mask, -1)\<close> on one row, from the running count.\<close>

fun cumsum :: "int \<Rightarrow> bool list \<Rightarrow> int list" where
  "cumsum acc [] = []"
| "cumsum acc (m # ms) = (acc + (if m then 1 else 0)) # cumsum (acc + (if m then 1 else 0)) ms"

text \<open>
  \<^verbatim>\<open>torch.tensor\<close> on a list of Python ints gives a tensor of 64-bit integers; an int
  outside that range raises (\<^verbatim>\<open>RuntimeError\<close>, an overflow when the value is
  unpacked). Token ids that the loop appends come out of a tensor and are in range; the
  ids of the initial sequences are the caller's.
\<close>

definition int64 :: "int \<Rightarrow> bool" where
  "int64 x = (- (2 ^ 63) \<le> x \<and> x < 2 ^ 63)"

text \<open>
  Lines 177 to 185: the full-context tensors, left-padded to the longest beam. The
  tensors of the beams are built first and raise on a token out of range. \<^verbatim>\<open>pad_sequence\<close>
  takes the padding value as a float: \<^verbatim>\<open>pad_token_id\<close> is taken to be an int that a float
  represents exactly, and the beams to be non-empty (the tensor of an empty list is a
  tensor of floats).
\<close>

definition full_inputs :: "config \<Rightarrow> beam list \<Rightarrow> error + model_input" where
  "full_inputs cfg beams =
     (if \<not> list_all (\<lambda>b. list_all int64 (token_ids b)) beams then Inl RuntimeError
      else
        (let longest = fold max (map (\<lambda>b. length (token_ids b)) beams) 0;
             ids = map (\<lambda>b. replicate (longest - length (token_ids b)) (pad_token_id cfg)
                             @ token_ids b) beams;
             mask = map (map (\<lambda>t. t \<noteq> pad_token_id cfg)) ids
         in Inr \<lparr>input_ids = ids,
                 position_ids = map (\<lambda>row. map (\<lambda>(m, c). if m then c - 1 else 0)
                                              (zip row (cumsum 0 row))) mask,
                 pad_mask = mask\<rparr>))"

text \<open>\<^verbatim>\<open>[f(beam) for beam in beams]\<close> where \<^verbatim>\<open>f\<close> may raise.\<close>

fun map_err :: "('a \<Rightarrow> error + 'b) \<Rightarrow> 'a list \<Rightarrow> error + 'b list" where
  "map_err f [] = Inr []"
| "map_err f (x # xs) =
     (case f x of Inl e \<Rightarrow> Inl e | Inr y \<Rightarrow>
     (case map_err f xs of Inl e \<Rightarrow> Inl e | Inr ys \<Rightarrow> Inr (y # ys)))"

text \<open>Lines 160 to 175: the tensors of the incremental path, from \<^verbatim>\<open>cache_lengths\<close>.
  The list of last tokens is built first (an empty beam raises), then its tensor (a token
  out of range raises).\<close>

definition incremental_inputs :: "beam list \<Rightarrow> int list \<Rightarrow> error + model_input" where
  "incremental_inputs beams cache_lengths =
     (case map_err last_token_id beams of Inl e \<Rightarrow> Inl e | Inr lasts \<Rightarrow>
        if \<not> list_all int64 lasts then Inl RuntimeError
        else
     (case py_max cache_lengths of Inl e \<Rightarrow> Inl e | Inr m \<Rightarrow>
        (let max_cache_length = m + 1
         in Inr \<lparr>input_ids = map (\<lambda>t. [t]) lasts,
                 position_ids = map (\<lambda>l. [l]) cache_lengths,
                 pad_mask = map (\<lambda>b. replicate (nat (max_cache_length - beam_len b)) False
                                      @ replicate (nat (beam_len b)) True) beams\<rparr>)))"

text \<open>
  Lines 154 to 190: the collaborator calls made, and then either the error raised or the
  tensors and the cache that \<^verbatim>\<open>decode_fn\<close> is to receive. On the full-context path the
  tensors are built before the cache is cleared, so an error there comes before
  \<^verbatim>\<open>torch.cuda.empty_cache\<close>. The loop enters with at least one beam; \<^verbatim>\<open>pad_sequence\<close>
  raises on no sequence at all.
\<close>

definition build_inputs :: "'c env \<Rightarrow> config \<Rightarrow> beam list \<Rightarrow> 'c option
                            \<Rightarrow> 'c event list \<times> (error + model_input \<times> 'c option)" where
  "build_inputs env cfg beams cache_handle =
     (case cache_handle of
        Some c \<Rightarrow>
          if list_all (\<lambda>beam. cache beam \<noteq> None) beams then
            (case cache_fn env of
               None \<Rightarrow> ([], Inl (AssertionError ''cache_fn must be provided if cache is used''))
             | Some cf \<Rightarrow>
                 (let cache_mask = map (\<lambda>beam. the (cache beam)) beams;
                      cache_lengths = map (\<lambda>beam. beam_len beam - 1) beams
                  in ([CacheFnCall c cache_mask cache_lengths],
                      (case incremental_inputs beams cache_lengths of
                         Inl e \<Rightarrow> Inl e
                       | Inr inp \<Rightarrow> Inr (inp, Some (cf c cache_mask cache_lengths))))))
          else
            (case full_inputs cfg beams of
               Inl e \<Rightarrow> ([], Inl e)
             | Inr inp \<Rightarrow> ([EmptyCache], Inr (inp, None)))
      | None \<Rightarrow>
          if beams = [] then ([], Inl RuntimeError)
          else
            (case full_inputs cfg beams of
               Inl e \<Rightarrow> ([], Inl e)
             | Inr inp \<Rightarrow> ([], Inr (inp, None))))"

text \<open>\<^verbatim>\<open>selected_ids[i, valid_ids[i]]\<close>: row \<^verbatim>\<open>i\<close> under the boolean mask of row
  \<^verbatim>\<open>i\<close>.\<close>

definition masked_row :: "int list list \<Rightarrow> bool list list \<Rightarrow> nat \<Rightarrow> error + int list" where
  "masked_row selected_ids valid_ids i =
     (case getitem selected_ids i of Inl e \<Rightarrow> Inl e | Inr ids \<Rightarrow>
     (case getitem valid_ids i of Inl e \<Rightarrow> Inl e | Inr valid \<Rightarrow>
        if length ids \<noteq> length valid then Inl IndexError
        else Inr (map fst (filter snd (zip ids valid)))))"

text \<open>\<^verbatim>\<open>log_probs[i, token_id]\<close>: a negative column counts from the end.\<close>

definition tensor_at :: "pyfloat list list \<Rightarrow> nat \<Rightarrow> int \<Rightarrow> error + pyfloat" where
  "tensor_at t i j =
     (case getitem t i of Inl e \<Rightarrow> Inl e | Inr row \<Rightarrow>
        (let n = int (length row); k = (if j < 0 then n + j else j)
         in if 0 \<le> k \<and> k < n then Inr (row ! nat k) else Inl IndexError))"

text \<open>Lines 211 to 220 when \<^verbatim>\<open>single\<close> holds: every token is added to the one beam
  object.\<close>

fun add_tokens :: "pyfloat list list \<Rightarrow> nat \<Rightarrow> beam \<Rightarrow> int list \<Rightarrow> error + beam" where
  "add_tokens lp i b [] = Inr b"
| "add_tokens lp i b (token_id # ts) =
     (case tensor_at lp i token_id of Inl e \<Rightarrow> Inl e
      | Inr p \<Rightarrow> add_tokens lp i (add b token_id p) ts)"

text \<open>Lines 211 to 220 otherwise: one clone of the beam for each token.\<close>

fun clone_tokens :: "pyfloat list list \<Rightarrow> nat \<Rightarrow> beam \<Rightarrow> int list \<Rightarrow> error + beam list" where
  "clone_tokens lp i b [] = Inr []"
| "clone_tokens lp i b (token_id # ts) =
     (case tensor_at lp i token_id of Inl e \<Rightarrow> Inl e | Inr p \<Rightarrow>
     (case clone_tokens lp i b ts of Inl e \<Rightarrow> Inl e
      | Inr cs \<Rightarrow> Inr (add (clone b) token_id p # cs)))"

text \<open>
  The candidates appended for the beam of row \<^verbatim>\<open>i\<close>. On the single path the list holds
  the same object once for each token, so every entry shows all the additions.
\<close>

definition row_candidates :: "bool \<Rightarrow> pyfloat list list \<Rightarrow> nat \<Rightarrow> beam \<Rightarrow> int list
                              \<Rightarrow> error + beam list" where
  "row_candidates single lp i b toks =
     (if single then
        (case add_tokens lp i b toks of Inl e \<Rightarrow> Inl e
         | Inr b' \<Rightarrow> Inr (replicate (length toks) b'))
      else clone_tokens lp i b toks)"

text \<open>Lines 206 to 220: the loop over \<^verbatim>\<open>enumerate(indices)\<close>, from position \<^verbatim>\<open>i\<close>. Every
  row reads its beam as it was at the start of the round: the rows' beams are different
  objects.\<close>

fun expand :: "bool \<Rightarrow> beam list \<Rightarrow> int list list \<Rightarrow> bool list list \<Rightarrow> pyfloat list list
               \<Rightarrow> nat \<Rightarrow> nat list \<Rightarrow> beam list list \<Rightarrow> error + beam list list" where
  "expand single beams selected_ids valid_ids lp i [] batch_candidates = Inr batch_candidates"
| "expand single beams selected_ids valid_ids lp i (batch_idx # rest) batch_candidates =
     (case getitem beams i of Inl e \<Rightarrow> Inl e | Inr beam \<Rightarrow>
     (case masked_row selected_ids valid_ids i of Inl e \<Rightarrow> Inl e | Inr toks \<Rightarrow>
     (case row_candidates single lp i (beam\<lparr>cache := Some i\<rparr>) toks of Inl e \<Rightarrow> Inl e
      | Inr cands \<Rightarrow>
          if cands \<noteq> [] \<and> length batch_candidates \<le> batch_idx then Inl IndexError
          else expand single beams selected_ids valid_ids lp (Suc i) rest
                 (batch_candidates[batch_idx := batch_candidates ! batch_idx @ cands]))))"

text \<open>
  Lines 229 to 238: the loop over the sorted candidates. The second component lists the
  candidates that were handed to \<^verbatim>\<open>update_fn\<close>.
\<close>

fun prune_loop :: "(beam \<Rightarrow> beam option) \<Rightarrow> int \<Rightarrow> beam list \<Rightarrow> beam list \<times> beam list
                   \<Rightarrow> beam list \<times> beam list" where
  "prune_loop upd bw [] acc = acc"
| "prune_loop upd bw (candidate # rest) (cur, seen) =
     (case upd candidate of
        None \<Rightarrow> prune_loop upd bw rest (cur, seen @ [candidate])
      | Some c \<Rightarrow>
          if int (length (cur @ [c])) \<ge> bw then (cur @ [c], seen @ [candidate])
          else prune_loop upd bw rest (cur @ [c], seen @ [candidate]))"

text \<open>Lines 224 to 238 for one element: its new alive list, and the candidates updated.\<close>

definition prune :: "'c env \<Rightarrow> config \<Rightarrow> beam list \<Rightarrow> beam list \<times> beam list" where
  "prune env cfg candidates =
     prune_loop (update_fn env) (beam_width cfg)
       (sorted_desc (\<lambda>b. score_fn env b None) candidates) ([], [])"

text \<open>Lines 192 to 202: \<^verbatim>\<open>log_probs\<close>, \<^verbatim>\<open>selected_ids\<close> and \<^verbatim>\<open>valid_ids\<close> from the logits.\<close>

definition select :: "'c env \<Rightarrow> config \<Rightarrow> beam list \<Rightarrow> pyfloat list list
                      \<Rightarrow> pyfloat list list \<times> int list list \<times> bool list list" where
  "select env cfg beams logits =
     (let lprobs = log_softmax env logits;
          logits' = fold (\<lambda>logit_fn l. logit_fn l beams)
                      (case logit_fns env of None \<Rightarrow> [] | Some fs \<Rightarrow> fs) logits
      in (case sample_fn env logits' (beam_width cfg) of
            (selected_ids, selected_logits) \<Rightarrow>
              (lprobs, selected_ids, map (map (\<lambda>x. x \<noteq> NegInf)) selected_logits)))"

text \<open>The variables of the loop: the shared lists, \<^verbatim>\<open>beams\<close>, \<^verbatim>\<open>indices\<close>, the variable
  \<^verbatim>\<open>cache\<close>, the calls made so far and the outputs yielded so far.\<close>

record 'c loop_state =
  ls :: lists
  beams :: "beam list"
  indices :: "nat list"
  cache_handle :: "'c option"
  calls :: "'c event list"
  yielded :: "beam list list list"

text \<open>Lines 240 to 243: the filter step and the optional yield that end a round.\<close>

definition finish_round :: "'c env \<Rightarrow> config \<Rightarrow> nat \<Rightarrow> 'c loop_state \<Rightarrow> error + 'c loop_state" where
  "finish_round env cfg batch_size st =
     (case filter_beams env cfg batch_size (ls st) of
        Inl e \<Rightarrow> Inl e
      | Inr (L, beams', indices') \<Rightarrow>
          if yield_intermediate cfg then
            (case get_outputs env cfg batch_size L of
               Inl e \<Rightarrow> Inl e
             | Inr (L', outs) \<Rightarrow>
                 Inr (st\<lparr>ls := L', beams := beams', indices := indices',
                         yielded := yielded st @ [outs]\<rparr>))
          else Inr (st\<lparr>ls := L, beams := beams', indices := indices'\<rparr>))"

text \<open>
  The body of the \<^verbatim>\<open>while\<close> loop, lines 154 to 243. An error comes with the calls made
  before it.
\<close>

definition round_step :: "'c env \<Rightarrow> config \<Rightarrow> nat \<Rightarrow> 'c loop_state
                          \<Rightarrow> (error \<times> 'c event list) + 'c loop_state" where
  "round_step env cfg batch_size st =
     (case build_inputs env cfg (beams st) (cache_handle st) of
        (evs, Inl e) \<Rightarrow> Inl (e, calls st @ evs)
      | (evs, Inr (inp, c)) \<Rightarrow>
          (case decode_fn env inp c of
             (logits, cache') \<Rightarrow>
               (case select env cfg (beams st) logits of
                  (lprobs, selected_ids, valid_ids) \<Rightarrow>
                    (case expand (beam_width cfg = 1) (beams st) selected_ids valid_ids
                            lprobs 0 (indices st) (replicate batch_size []) of
                       Inl e \<Rightarrow> Inl (e, calls st @ evs @ [DecodeFnCall inp c])
                     | Inr batch_candidates \<Rightarrow>
                         (case finish_round env cfg batch_size
                                 (st\<lparr>ls := (ls st)\<lparr>current_beams :=
                                               map (\<lambda>cs. fst (prune env cfg cs)) batch_candidates\<rparr>,
                                     cache_handle := cache',
                                     calls := calls st @ evs @ [DecodeFnCall inp c]\<rparr>) of
                            Inl e \<Rightarrow> Inl (e, calls st @ evs @ [DecodeFnCall inp c])
                          | Inr st' \<Rightarrow> Inr st')))))"

text \<open>The \<^verbatim>\<open>while beams:\<close> loop, lines 153 to 243; a run that never leaves the loop has
  no value.\<close>

partial_function (option) run_loop :: "'c env \<Rightarrow> config \<Rightarrow> nat \<Rightarrow> 'c loop_state
                                       \<Rightarrow> ((error \<times> 'c event list) + 'c loop_state) option" where
  "run_loop env cfg batch_size st =
     (if beams st = [] then Some (Inr st)
      else (case round_step env cfg batch_size st of
              Inl e \<Rightarrow> Some (Inl e)
            | Inr st' \<Rightarrow> run_loop env cfg batch_size st'))"

declare run_loop.simps [code]

section \<open>The entry point\<close>

text \<open>An element of \<^verbatim>\<open>initial\<close>: a list of token ids or a \<^verbatim>\<open>Beam\<close>.\<close>

datatype initial = Tokens "int list" | Given beam

text \<open>Lines 59 to 69: the loop that fills the three lists. A \<^verbatim>\<open>Beam\<close> of the caller is
  put into the list as it is (line 62); here it is its value.\<close>

fun init_lists :: "initial list \<Rightarrow> lists \<Rightarrow> error + lists" where
  "init_lists [] L = Inr L"
| "init_lists (init # rest) L =
     (if (case init of Tokens ids \<Rightarrow> length ids | Given b \<Rightarrow> length (token_ids b)) > 0 then
        init_lists rest
          (L\<lparr>current_beams := current_beams L @
                [case init of Given b \<Rightarrow> [b] | Tokens ids \<Rightarrow> [Beam ids]],
             finished_beams := finished_beams L @ [[]],
             too_long_beams := too_long_beams L @ [[]]\<rparr>)
      else Inl (AssertionError ''initial beam or token ids cannot be empty''))"

text \<open>What a finished run gives: the returned outputs, the outputs yielded on the way,
  the calls made, and the lists at the end.\<close>

record 'c outcome =
  returned :: "beam list list"
  yields :: "beam list list list"
  made_calls :: "'c event list"
  final_lists :: lists

text \<open>The message of the assertion on \<^verbatim>\<open>stop_condition\<close>, line 51.\<close>

definition stop_condition_message :: string where
  "stop_condition_message =
     ''stop condition must be 'max_score', 'estimated_score' or 'max_outputs'' @ [CHR 0x27]"

text \<open>
  \<^verbatim>\<open>beam_search\<close>, lines 26 to 245, run until the generator is exhausted. The value is
  \<^const>\<open>None\<close> when the loop never ends, an error with the calls made before it, or the
  outcome.
\<close>

definition beam_search :: "'c env \<Rightarrow> config \<Rightarrow> initial list
                           \<Rightarrow> ((error \<times> 'c event list) + 'c outcome) option" where
  "beam_search env cfg initial =
     (if \<not> (case max_new_tokens cfg of None \<Rightarrow> True | Some n \<Rightarrow> n > 0) then
        Some (Inl (AssertionError ''max_new_tokens must be None or positive'', []))
      else if stop_condition cfg \<notin> {''max_score'', ''estimated_score'', ''max_outputs''} then
        Some (Inl (AssertionError stop_condition_message, []))
      else if \<not> beam_width cfg \<ge> 1 then
        Some (Inl (AssertionError ''beam width must be greater than or equal to 1'', []))
      else
        (case init_lists initial
                \<lparr>current_beams = [], finished_beams = [], too_long_beams = []\<rparr> of
           Inl e \<Rightarrow> Some (Inl (e, []))
         | Inr L0 \<Rightarrow>
             (case filter_beams env cfg (length initial) L0 of
                Inl e \<Rightarrow> Some (Inl (e, []))
              | Inr (L, beams0, indices0) \<Rightarrow>
                  (case run_loop env cfg (length initial)
                          \<lparr>ls = L, beams = beams0, indices = indices0, cache_handle = None,
                           calls = [], yielded = []\<rparr> of
                     None \<Rightarrow> None
                   | Some (Inl e) \<Rightarrow> Some (Inl e)
                   | Some (Inr st) \<Rightarrow>
                       (case get_outputs env cfg (length initial) (ls st) of
                          Inl e \<Rightarrow> Some (Inl (e, calls st))
                        | Inr (L', outs) \<Rightarrow>
                            Some (Inr \<lparr>returned = outs, yields = yielded st,
                                       made_calls = calls st, final_lists = L'\<rparr>))))))"


section \<open>Two steps as the specification words them\<close>

text \<open>
  The pruning step in the specification's words (section 4.4, step 6): the update hook
  is applied to each candidate, those it rejects are dropped, and the top \<^verbatim>\<open>beam_width\<close>
  survivors by score are kept.
\<close>

definition prune_as_specified :: "'c env \<Rightarrow> config \<Rightarrow> beam list \<Rightarrow> beam list" where
  "prune_as_specified env cfg candidates =
     slice_to (sorted_desc (\<lambda>b. score_fn env b None)
                 (List.map_filter (update_fn env) candidates)) (beam_width cfg)"

text \<open>
  The selection step in the specification's words (section 4.4, steps 3 and 4): the logit
  filters are applied in sequence, and then the logits are converted to
  log-probabilities and sampled.
\<close>

definition select_as_specified :: "'c env \<Rightarrow> config \<Rightarrow> beam list \<Rightarrow> pyfloat list list
                      \<Rightarrow> pyfloat list list \<times> int list list \<times> bool list list" where
  "select_as_specified env cfg alive logits =
     (let logits' = fold (\<lambda>logit_fn l. logit_fn l alive)
                      (case logit_fns env of None \<Rightarrow> [] | Some fs \<Rightarrow> fs) logits;
          lprobs = log_softmax env logits'
      in (case sample_fn env logits' (beam_width cfg) of
            (selected_ids, selected_logits) \<Rightarrow>
              (lprobs, selected_ids, map (map (\<lambda>x. x \<noteq> NegInf)) selected_logits)))"

section \<open>Measures and contracts used in the statements\<close>





text \<open>The limits of the configuration for one beam.\<close>

definition within_limits :: "config \<Rightarrow> beam \<Rightarrow> bool" where
  "within_limits cfg b =
     (beam_len b \<le> max_length cfg \<and>
      (case max_new_tokens cfg of None \<Rightarrow> True | Some m \<Rightarrow> decoded_length b \<le> m))"




section \<open>Concrete collaborators for the examples\<close>

text \<open>A stop predicate: the beam ends with the given token.\<close>

definition ends_with :: "int \<Rightarrow> beam \<Rightarrow> bool" where
  "ends_with t b = (token_ids b \<noteq> [] \<and> last (token_ids b) = t)"

text \<open>A score: minus the number of tokens; with a projected length, that length minus
  twice the number of tokens.\<close>

definition demo_score :: "beam \<Rightarrow> int option \<Rightarrow> real" where
  "demo_score b l =
     (case l of None \<Rightarrow> - real (length (token_ids b))
      | Some n \<Rightarrow> real_of_int n - 2 * real (length (token_ids b)))"

text \<open>A model that gives every row the same two logits, and a sampler that proposes
  tokens 0 and 1 of every row with the logits it was given.\<close>

definition demo_decode :: "model_input \<Rightarrow> unit option \<Rightarrow> pyfloat list list \<times> unit option" where
  "demo_decode inp c = (map (\<lambda>row. [Fin 0, Fin 0]) (input_ids inp), Some ())"

definition demo_sample :: "pyfloat list list \<Rightarrow> int \<Rightarrow> int list list \<times> pyfloat list list" where
  "demo_sample logits k =
     (map (\<lambda>row. take (nat k) [0, 1]) logits, map (\<lambda>row. take (nat k) row) logits)"

definition demo_env :: "unit env" where
  "demo_env = \<lparr>decode_fn = demo_decode, stop_fn = ends_with 9, sample_fn = demo_sample,
               update_fn = Some, score_fn = demo_score, logit_fns = None,
               cache_fn = Some (\<lambda>c mask lengths. c), log_softmax = (\<lambda>t. t)\<rparr>"

definition demo_cfg :: config where
  "demo_cfg = \<lparr>pad_token_id = 0, max_length = 2, beam_width = 1,
               stop_condition = ''max_score'', max_new_tokens = None,
               yield_intermediate = False, return_unfinished = False\<rparr>"

text \<open>Two elements under \<^verbatim>\<open>max_outputs\<close>: the second has a beam that ends with the
  stop token.\<close>

definition outputs_cfg :: config where
  "outputs_cfg = demo_cfg\<lparr>max_length := 4, stop_condition := ''max_outputs''\<rparr>"

definition two_lists :: lists where
  "two_lists = \<lparr>current_beams = [[Beam [5]], [Beam [5, 9], Beam [5]]],
                finished_beams = [[], []], too_long_beams = [[], []]\<rparr>"

text \<open>Two elements under \<^verbatim>\<open>max_score\<close>, each with one beam that stops and one that
  goes on.\<close>

definition score_cfg :: config where
  "score_cfg = demo_cfg\<lparr>max_length := 4, max_new_tokens := Some 2\<rparr>"

definition score_lists :: lists where
  "score_lists = \<lparr>current_beams = [[Beam [5, 9], Beam [5]], [Beam [9], Beam [5, 5, 5]]],
                  finished_beams = [[], []], too_long_beams = [[], []]\<rparr>"

text \<open>A log-likelihood score, and an update hook that lowers the last log-probability by
  five when the beam repeats its last token.\<close>

definition finite_part :: "pyfloat \<Rightarrow> real" where
  "finite_part x = (case x of NegInf \<Rightarrow> 0 | Fin r \<Rightarrow> r)"

definition loglik_score :: "beam \<Rightarrow> int option \<Rightarrow> real" where
  "loglik_score b l = sum_list (map finite_part (log_probs b))"

definition penalise_repeat :: "beam \<Rightarrow> beam option" where
  "penalise_repeat b =
     (if 2 \<le> length (token_ids b) \<and> log_probs b \<noteq> [] \<and>
         last (token_ids b) = last (butlast (token_ids b))
      then Some (b\<lparr>log_probs := butlast (log_probs b) @
                                [Fin (finite_part (last (log_probs b)) - 5)]\<rparr>)
      else Some b)"

text \<open>The log-softmax of exact real arithmetic, a logit filter that forbids one token,
  and collaborators that use both.\<close>

definition exact_log_softmax :: "pyfloat list list \<Rightarrow> pyfloat list list" where
  "exact_log_softmax t =
     map (\<lambda>row. map (\<lambda>x. case x of NegInf \<Rightarrow> NegInf
                          | Fin r \<Rightarrow> Fin (r - ln (sum_list (map (\<lambda>y. case y of NegInf \<Rightarrow> 0
                                                                    | Fin s \<Rightarrow> exp s) row))))
                 row) t"

definition ban_token :: "nat \<Rightarrow> pyfloat list list \<Rightarrow> beam list \<Rightarrow> pyfloat list list" where
  "ban_token k logits bs = map (\<lambda>row. row[k := NegInf]) logits"

definition ban_env :: "unit env" where
  "ban_env = demo_env\<lparr>logit_fns := Some [ban_token 1], log_softmax := exact_log_softmax\<rparr>"

text \<open>The state at the start of the first round from the seed \<open>[5]\<close>, and a configuration
  with a beam width of two.\<close>

definition seed_state :: "unit loop_state" where
  "seed_state = \<lparr>ls = \<lparr>current_beams = [[Beam [5]]], finished_beams = [[]],
                        too_long_beams = [[]]\<rparr>,
                 beams = [Beam [5]], indices = [0], cache_handle = None, calls = [],
                 yielded = []\<rparr>"

definition wide_cfg :: config where
  "wide_cfg = demo_cfg\<lparr>max_length := 4, beam_width := 2\<rparr>"

text \<open>A model whose second token is impossible, so that every beam has one child; and a
  configuration that yields intermediate outputs and returns unfinished beams.\<close>

definition chain_decode :: "model_input \<Rightarrow> unit option \<Rightarrow> pyfloat list list \<times> unit option" where
  "chain_decode inp c = (map (\<lambda>row. [Fin 0, NegInf]) (input_ids inp), Some ())"

definition chain_env :: "unit env" where
  "chain_env = demo_env\<lparr>decode_fn := chain_decode\<rparr>"

definition backfill_cfg :: config where
  "backfill_cfg = demo_cfg\<lparr>max_length := 3, beam_width := 2, yield_intermediate := True,
                           return_unfinished := True\<rparr>"

definition unbounded_cfg :: config where
  "unbounded_cfg = demo_cfg\<lparr>max_length := 0\<rparr>"

text \<open>The beams and states of the run of these collaborators from the seed \<open>[5]\<close>.\<close>

definition chain_beam1 :: beam where
  "chain_beam1 = \<lparr>token_ids = [5, 0], log_probs = [Fin 0], initial_length = 1,
                  cache = Some 0, stop_reason = None\<rparr>"

definition chain_beam2 :: beam where
  "chain_beam2 = \<lparr>token_ids = [5, 0, 0], log_probs = [Fin 0, Fin 0], initial_length = 1,
                  cache = Some 0, stop_reason = Some Length\<rparr>"

definition chain_call1 :: "unit event" where
  "chain_call1 = DecodeFnCall \<lparr>input_ids = [[5]], position_ids = [[0]], pad_mask = [[True]]\<rparr> None"

definition chain_call2 :: "unit event" where
  "chain_call2 = DecodeFnCall \<lparr>input_ids = [[0]], position_ids = [[1]],
                               pad_mask = [[True, True]]\<rparr> (Some ())"

definition chain_state1 :: "unit loop_state" where
  "chain_state1 = \<lparr>ls = \<lparr>current_beams = [[chain_beam1]], finished_beams = [[]],
                          too_long_beams = [[]]\<rparr>,
                   beams = [chain_beam1], indices = [0], cache_handle = Some (),
                   calls = [chain_call1], yielded = [[[]]]\<rparr>"

definition chain_state2 :: "unit loop_state" where
  "chain_state2 = \<lparr>ls = \<lparr>current_beams = [[]], finished_beams = [[chain_beam2]],
                          too_long_beams = [[chain_beam2]]\<rparr>,
                   beams = [], indices = [], cache_handle = Some (),
                   calls = [chain_call1, CacheFnCall () [0] [1], chain_call2],
                   yielded = [[[]], [[chain_beam2]]]\<rparr>"





text \<open>
  Collaborators with the exact log-softmax. With the logits \<open>[0, 0]\<close> of \<^const>\<open>demo_decode\<close>
  every appended log-probability is \<open>- ln 2\<close>.
\<close>

definition exact_env :: "unit env" where
  "exact_env = demo_env\<lparr>log_softmax := exact_log_softmax\<rparr>"


text \<open>
  A model that makes token 0 twice as likely as token 1: the log-probabilities are
  \<open>ln 2 - ln 3\<close> and \<open>- ln 3\<close>. With it, the log-likelihood score and the hook that penalises
  a repeated token.
\<close>

definition skew_decode :: "model_input \<Rightarrow> unit option \<Rightarrow> pyfloat list list \<times> unit option" where
  "skew_decode inp c = (map (\<lambda>row. [Fin (ln 2), Fin 0]) (input_ids inp), Some ())"

definition rank_env :: "unit env" where
  "rank_env = exact_env\<lparr>decode_fn := skew_decode, update_fn := penalise_repeat,
                        score_fn := loglik_score\<rparr>"

definition ranked :: "int list \<Rightarrow> nat \<Rightarrow> beam" where
  "ranked ids slot =
     \<lparr>token_ids = ids,
      log_probs = map (\<lambda>t. Fin (if t = 0 then ln 2 - ln 3 else - ln 3)) (tl ids),
      initial_length = 1, cache = Some slot, stop_reason = None\<rparr>"

text \<open>The run of \<^const>\<open>rank_env\<close> from the seed \<open>[5]\<close> with a beam width of two: the state
  after the first round, the candidates of the second round, the candidate that the
  hook penalises, and the state after the second round.\<close>

definition rank_state1 :: "unit loop_state" where
  "rank_state1 = \<lparr>ls = \<lparr>current_beams = [[ranked [5, 0] 0, ranked [5, 1] 0]],
                         finished_beams = [[]], too_long_beams = [[]]\<rparr>,
                  beams = [ranked [5, 0] 0, ranked [5, 1] 0], indices = [0, 0],
                  cache_handle = Some (), calls = [chain_call1], yielded = []\<rparr>"

definition rank_candidates :: "beam list" where
  "rank_candidates =
     [ranked [5, 0, 0] 0, ranked [5, 0, 1] 0, ranked [5, 1, 0] 1, ranked [5, 1, 1] 1]"

definition penalised :: beam where
  "penalised = (ranked [5, 0, 0] 0)\<lparr>log_probs := [Fin (ln 2 - ln 3), Fin (ln 2 - ln 3 - 5)]\<rparr>"

definition rank_call2 :: "unit event" where
  "rank_call2 = DecodeFnCall \<lparr>input_ids = [[0], [1]], position_ids = [[1], [1]],
                              pad_mask = [[True, True], [True, True]]\<rparr> (Some ())"

definition rank_state2 :: "unit loop_state" where
  "rank_state2 = \<lparr>ls = \<lparr>current_beams = [[penalised, ranked [5, 0, 1] 0]],
                         finished_beams = [[]], too_long_beams = [[]]\<rparr>,
                  beams = [penalised, ranked [5, 0, 1] 0], indices = [0, 0],
                  cache_handle = Some (),
                  calls = [chain_call1, CacheFnCall () [0, 0] [1, 1], rank_call2],
                  yielded = []\<rparr>"




















section \<open>Facts about the filter step\<close>

lemma classify_acc:
  "classify env cfg bs (fin, lng, new) =
     (fin @ map (\<lambda>b. b\<lparr>stop_reason := Some Done\<rparr>) (filter (stop_fn env) bs),
      lng @ map (\<lambda>b. b\<lparr>stop_reason := Some Length\<rparr>)
              (filter (\<lambda>b. \<not> stop_fn env b \<and> too_long cfg b) bs),
      new @ filter (\<lambda>b. \<not> stop_fn env b \<and> \<not> too_long cfg b) bs)"
  by (induction bs arbitrary: fin lng new) simp_all

lemma classify_append:
  "classify env cfg (xs @ ys) acc = classify env cfg ys (classify env cfg xs acc)"
proof (induction xs arbitrary: acc)
  case Nil
  then show ?case by simp
next
  case (Cons x xs)
  obtain fin lng new where acc: "acc = (fin, lng, new)" by (cases acc)
  show ?case unfolding acc by (simp add: Cons.IH)
qed

lemma getitem_Inr: "getitem xs i = Inr x \<longleftrightarrow> i < length xs \<and> x = xs ! i"
  by (auto simp: getitem_def)

lemma filter_loop_lengths:
  "filter_loop env cfg idxs L = Inr L' \<Longrightarrow>
     length (current_beams L') = length (current_beams L) \<and>
     length (finished_beams L') = length (finished_beams L) \<and>
     length (too_long_beams L') = length (too_long_beams L)"
proof (induction idxs arbitrary: L)
  case Nil
  then show ?case by simp
next
  case (Cons idx rest)
  from Cons.prems show ?case
    by (auto split: sum.splits prod.splits dest!: Cons.IH)
qed

lemma filter_loop_other:
  "filter_loop env cfg idxs L = Inr L' \<Longrightarrow> idx \<notin> set idxs \<Longrightarrow>
     current_beams L' ! idx = current_beams L ! idx \<and>
     finished_beams L' ! idx = finished_beams L ! idx \<and>
     too_long_beams L' ! idx = too_long_beams L ! idx"
proof (induction idxs arbitrary: L)
  case Nil
  then show ?case by simp
next
  case (Cons i rest)
  from Cons.prems show ?case
    by (auto split: sum.splits prod.splits dest!: Cons.IH)
qed

lemma filter_loop_at:
  "filter_loop env cfg idxs L = Inr L' \<Longrightarrow> distinct idxs \<Longrightarrow> idx \<in> set idxs \<Longrightarrow>
     filter_element env cfg (current_beams L ! idx) (finished_beams L ! idx)
        (too_long_beams L ! idx) =
     Inr (current_beams L' ! idx, finished_beams L' ! idx, too_long_beams L' ! idx)"
proof (induction idxs arbitrary: L)
  case Nil
  then show ?case by simp
next
  case (Cons i rest)
  from Cons.prems(1) obtain cur' fin' lng' where
    i: "i < length (current_beams L)" "i < length (finished_beams L)"
       "i < length (too_long_beams L)" and
    el: "filter_element env cfg (current_beams L ! i) (finished_beams L ! i)
           (too_long_beams L ! i) = Inr (cur', fin', lng')" and
    rest: "filter_loop env cfg rest
             (L\<lparr>current_beams := (current_beams L)[i := cur'],
                finished_beams := (finished_beams L)[i := fin'],
                too_long_beams := (too_long_beams L)[i := lng']\<rparr>) = Inr L'"
    by (auto split: sum.splits prod.splits simp: getitem_Inr)
  show ?case
  proof (cases "idx = i")
    case True
    with Cons.prems(2) have "idx \<notin> set rest" by simp
    from filter_loop_other[OF rest this] i el True show ?thesis by simp
  next
    case False
    with Cons.prems have "distinct rest" "idx \<in> set rest" by auto
    from Cons.IH[OF rest this] False show ?thesis by simp
  qed
qed

lemma filter_beams_element:
  assumes "filter_beams env cfg n L = Inr (L', bs, idxs)" and "idx < n"
  shows "filter_element env cfg (current_beams L ! idx) (finished_beams L ! idx)
           (too_long_beams L ! idx) =
         Inr (current_beams L' ! idx, finished_beams L' ! idx, too_long_beams L' ! idx)"
proof -
  from assms(1) have "filter_loop env cfg [0..<n] L = Inr L'"
    by (auto simp: filter_beams_def split: sum.splits)
  from filter_loop_at[OF this] assms(2) show ?thesis by simp
qed

lemma fold_max_Max: "fold max xs (x::'a::linorder) = Max (set (x # xs))"
  by (simp only: Max.set_eq_fold)

lemma fold_min_Min: "fold min xs (x::'a::linorder) = Min (set (x # xs))"
  by (simp only: Min.set_eq_fold)

lemma py_max_Max: "xs \<noteq> [] \<Longrightarrow> py_max xs = Inr (Max (set xs))"
  by (cases xs) (simp_all only: py_max.simps fold_max_Max, simp)

lemma py_min_default_Min: "xs \<noteq> [] \<Longrightarrow> py_min_default xs = Some (Min (set xs))"
  by (cases xs) (simp_all only: py_min_default.simps fold_min_Min, simp)

section \<open>Facts about the expansion\<close>

lemma clone_tokens_props:
  "clone_tokens lp j b toks = Inr cs \<Longrightarrow> c \<in> set cs \<Longrightarrow>
     \<exists>t p. t \<in> set toks \<and> tensor_at lp j t = Inr p \<and> c = add b t p"
proof (induction toks arbitrary: cs)
  case Nil
  then show ?case by simp
next
  case (Cons t ts)
  from Cons.prems(1) obtain p cs' where
    p: "tensor_at lp j t = Inr p" and cs': "clone_tokens lp j b ts = Inr cs'" and
    cs: "cs = add (clone b) t p # cs'"
    by (auto split: sum.splits)
  show ?case
  proof (cases "c = add b t p")
    case True
    with p show ?thesis by auto
  next
    case False
    with cs Cons.prems(2) have "c \<in> set cs'" by (simp add: clone_def)
    from Cons.IH[OF cs' this] show ?thesis by auto
  qed
qed

lemma add_tokens_props:
  "add_tokens lp j b toks = Inr b' \<Longrightarrow>
     cache b' = cache b \<and> initial_length b' = initial_length b \<and>
     stop_reason b' = stop_reason b \<and> token_ids b' = token_ids b @ toks \<and>
     (\<exists>ps. log_probs b' = log_probs b @ ps \<and> length ps = length toks \<and>
           (toks \<noteq> [] \<longrightarrow> tensor_at lp j (last toks) = Inr (last ps)))"
proof (induction toks arbitrary: b)
  case Nil
  then show ?case by simp
next
  case (Cons t ts)
  from Cons.prems obtain p where
    p: "tensor_at lp j t = Inr p" and r: "add_tokens lp j (add b t p) ts = Inr b'"
    by (auto split: sum.splits)
  from Cons.IH[OF r] obtain ps where
    f: "cache b' = cache b" "initial_length b' = initial_length b"
       "stop_reason b' = stop_reason b" "token_ids b' = token_ids b @ t # ts" and
    ps: "log_probs b' = log_probs b @ p # ps" "length ps = length ts"
        "ts \<noteq> [] \<longrightarrow> tensor_at lp j (last ts) = Inr (last ps)"
    by (auto simp: add_def)
  have "length (p # ps) = length (t # ts)" using ps(2) by simp
  moreover have "tensor_at lp j (last (t # ts)) = Inr (last (p # ps))"
    using ps(2,3) p by (cases ts) auto
  ultimately show ?case using f ps(1) by blast
qed

lemma row_candidates_props:
  assumes "row_candidates single lp j b toks = Inr cands" and "c \<in> set cands"
  shows "cache c = cache b \<and> initial_length c = initial_length b \<and>
         stop_reason c = stop_reason b \<and>
         (\<exists>ts. ts \<noteq> [] \<and> token_ids c = token_ids b @ ts \<and>
               (if single then ts = toks else length ts = 1) \<and> log_probs c \<noteq> [] \<and>
               tensor_at lp j (last ts) = Inr (last (log_probs c)))"
proof (cases single)
  case True
  with assms obtain b' where b': "add_tokens lp j b toks = Inr b'" and
    cands: "cands = replicate (length toks) b'"
    by (auto simp: row_candidates_def split: sum.splits)
  from cands assms(2) have c: "c = b'" and ne: "toks \<noteq> []" by auto
  from add_tokens_props[OF b'] obtain ps where
    f: "cache b' = cache b" "initial_length b' = initial_length b"
       "stop_reason b' = stop_reason b" "token_ids b' = token_ids b @ toks" and
    ps: "log_probs b' = log_probs b @ ps" "length ps = length toks"
        "toks \<noteq> [] \<longrightarrow> tensor_at lp j (last toks) = Inr (last ps)"
    by blast
  from ps(2) ne have "ps \<noteq> []" by auto
  with ps ne have "log_probs b' \<noteq> []" "tensor_at lp j (last toks) = Inr (last (log_probs b'))"
    by auto
  with f c ne True show ?thesis by auto
next
  case False
  with assms have "clone_tokens lp j b toks = Inr cands"
    by (simp add: row_candidates_def)
  from clone_tokens_props[OF this assms(2)] obtain t p where
    "tensor_at lp j t = Inr p" "c = add b t p" by auto
  with False show ?thesis
    by (auto simp: add_def intro!: exI[of _ "[t]"])
qed

lemma expand_all:
  assumes "expand single bs sel valid lp i idxs bc = Inr bc'"
    and "\<forall>cs \<in> set bc. \<forall>c \<in> set cs. P c"
    and "\<And>j toks cands c. j < length bs \<Longrightarrow> masked_row sel valid j = Inr toks \<Longrightarrow>
           row_candidates single lp j ((bs ! j)\<lparr>cache := Some j\<rparr>) toks = Inr cands \<Longrightarrow>
           c \<in> set cands \<Longrightarrow> P c"
  shows "\<forall>cs \<in> set bc'. \<forall>c \<in> set cs. P c"
  using assms(1,2)
proof (induction idxs arbitrary: i bc)
  case Nil
  then show ?case by simp
next
  case (Cons batch_idx rest)
  from Cons.prems(1) obtain toks cands where
    i: "i < length bs" and m: "masked_row sel valid i = Inr toks" and
    r: "row_candidates single lp i ((bs ! i)\<lparr>cache := Some i\<rparr>) toks = Inr cands" and
    e: "expand single bs sel valid lp (Suc i) rest (bc[batch_idx := bc ! batch_idx @ cands]) = Inr bc'"
    by (auto split: sum.splits if_splits simp: getitem_Inr)
  have "\<forall>cs \<in> set (bc[batch_idx := bc ! batch_idx @ cands]). \<forall>c \<in> set cs. P c"
  proof (intro ballI)
    fix cs c assume cs: "cs \<in> set (bc[batch_idx := bc ! batch_idx @ cands])" and c: "c \<in> set cs"
    from cs have "cs \<in> insert (bc ! batch_idx @ cands) (set bc)"
      using set_update_subset_insert by fast
    then show "P c"
    proof
      assume "cs = bc ! batch_idx @ cands"
      with c have "c \<in> set (bc ! batch_idx) \<or> c \<in> set cands" by simp
      then show "P c"
      proof
        assume a: "c \<in> set (bc ! batch_idx)"
        show "P c"
        proof (cases "batch_idx < length bc")
          case True
          then have "bc ! batch_idx \<in> set bc" by simp
          with a Cons.prems(2) show ?thesis by blast
        next
          case False
          then have "bc[batch_idx := bc ! batch_idx @ cands] = bc"
            by (simp add: list_update_beyond)
          with cs c Cons.prems(2) show ?thesis by auto
        qed
      next
        assume "c \<in> set cands"
        from assms(3)[OF i m r this] show "P c" .
      qed
    next
      assume "cs \<in> set bc"
      with c Cons.prems(2) show "P c" by auto
    qed
  qed
  from Cons.IH[OF e this] show ?case .
qed






section \<open>Where the beams of a round come from\<close>



lemma flatten_beams_lengths:
  "flatten_beams n cur = Inr (bs, idxs) \<Longrightarrow> length idxs = length bs"
  by (auto simp: flatten_beams_def length_concat comp_def split: if_splits)






section \<open>A run, round by round\<close>

lemmas model_defs =
  round_step_def build_inputs_def incremental_inputs_def full_inputs_def int64_def
  last_token_id_def
  select_def masked_row_def row_candidates_def tensor_at_def getitem_def
  finish_round_def filter_beams_def filter_element_def flatten_beams_def get_outputs_def
  best_current_def projected_length_def or_default_def truthy_def
  prune_def sorted_desc_def slice_to_def too_long_def beam_len_def decoded_length_def
  add_def clone_def Beam_def upt_rec Let_def

lemmas chain_defs =
  chain_env_def chain_decode_def backfill_cfg_def demo_cfg_def demo_env_def demo_sample_def
  demo_score_def ends_with_def chain_beam1_def chain_beam2_def chain_call1_def
  chain_call2_def chain_state1_def chain_state2_def seed_state_def

lemma chain_round1:
  "round_step chain_env backfill_cfg (Suc 0) seed_state = Inr chain_state1"
  by (simp add: model_defs chain_defs)

lemma chain_round2:
  "round_step chain_env backfill_cfg (Suc 0) chain_state1 = Inr chain_state2"
  by (simp add: model_defs chain_defs)

lemma chain_loop:
  "run_loop chain_env backfill_cfg (Suc 0) seed_state = Some (Inr chain_state2)"
proof -
  have "run_loop chain_env backfill_cfg (Suc 0) chain_state2 = Some (Inr chain_state2)"
    by (subst run_loop.simps) (simp add: chain_state2_def)
  moreover have "run_loop chain_env backfill_cfg (Suc 0) chain_state1 =
                   run_loop chain_env backfill_cfg (Suc 0) chain_state2"
    by (subst run_loop.simps) (simp add: chain_round2, simp add: chain_state1_def)
  moreover have "run_loop chain_env backfill_cfg (Suc 0) seed_state =
                   run_loop chain_env backfill_cfg (Suc 0) chain_state1"
    by (subst run_loop.simps) (simp add: chain_round1, simp add: seed_state_def)
  ultimately show ?thesis by simp
qed

lemma chain_search:
  "beam_search chain_env backfill_cfg [Tokens [5]] =
     Some (Inr \<lparr>returned = [[chain_beam2, chain_beam2]],
                yields = [[[]], [[chain_beam2]]],
                made_calls = [chain_call1, CacheFnCall () [0] [1], chain_call2],
                final_lists = \<lparr>current_beams = [[]],
                                finished_beams = [[chain_beam2, chain_beam2]],
                                too_long_beams = [[chain_beam2]]\<rparr>\<rparr>)"
proof -
  have cfg: "max_new_tokens backfill_cfg = None" "stop_condition backfill_cfg = ''max_score''"
    "beam_width backfill_cfg = 2"
    by (simp_all add: backfill_cfg_def demo_cfg_def)
  have init: "init_lists [Tokens [5]]
                \<lparr>current_beams = [], finished_beams = [], too_long_beams = []\<rparr> =
              Inr \<lparr>current_beams = [[Beam [5]]], finished_beams = [[]], too_long_beams = [[]]\<rparr>"
    by simp
  have f0: "filter_beams chain_env backfill_cfg (Suc 0)
              \<lparr>current_beams = [[Beam [5]]], finished_beams = [[]], too_long_beams = [[]]\<rparr> =
            Inr (\<lparr>current_beams = [[Beam [5]]], finished_beams = [[]], too_long_beams = [[]]\<rparr>,
                 [Beam [5]], [0])"
    by (simp add: model_defs chain_defs)
  have loop: "run_loop chain_env backfill_cfg (Suc 0)
                \<lparr>ls = \<lparr>current_beams = [[Beam [5]]], finished_beams = [[]],
                        too_long_beams = [[]]\<rparr>,
                 beams = [Beam [5]], indices = [0], cache_handle = None, calls = [],
                 yielded = []\<rparr> = Some (Inr chain_state2)"
    using chain_loop by (simp add: seed_state_def)
  have out: "get_outputs chain_env backfill_cfg (Suc 0) (ls chain_state2) =
               Inr (\<lparr>current_beams = [[]], finished_beams = [[chain_beam2, chain_beam2]],
                     too_long_beams = [[chain_beam2]]\<rparr>, [[chain_beam2, chain_beam2]])"
    by (simp add: model_defs chain_defs)
  show ?thesis
    by (simp add: beam_search_def cfg init f0 loop out) (simp add: chain_state2_def)
qed

section \<open>The parts of a round\<close>








section \<open>The rounds that remain\<close>











section \<open>The loop ends\<close>








section \<open>Properties that every beam of a run keeps\<close>


lemma within_limits_stop_reason [simp]:
  "within_limits cfg (b\<lparr>stop_reason := r\<rparr>) = within_limits cfg b"
  by (simp add: within_limits_def beam_len_def decoded_length_def split: option.splits)





section \<open>The length limits along a run\<close>





section \<open>The claims about classification and early termination\<close>

text \<open>
  C10. In the classification loop the stop predicate is asked first. When an alive beam
  \<open>b\<close> satisfies both \<^verbatim>\<open>stop_fn\<close> and \<^verbatim>\<open>too_long\<close>, the step that handles it appends it,
  marked \<^verbatim>\<open>done\<close>, to the finished list and leaves the too-long list and the new alive
  list as they were; at the end of the loop the too-long list holds, beyond what it held
  before \<open>b\<close>, only beams that come after \<open>b\<close> and for which \<^verbatim>\<open>stop_fn\<close> is false.
\<close>

theorem stop_fn_precedes_too_long:
  assumes "stop_fn env b" and "too_long cfg b"
    and "classify env cfg pre (fin, lng, []) = (f, l, n)"
  shows "classify env cfg [b] (f, l, n) = (f @ [b\<lparr>stop_reason := Some Done\<rparr>], l, n) \<and>
         classify env cfg (pre @ b # post) (fin, lng, []) =
           (f @ b\<lparr>stop_reason := Some Done\<rparr> #
                map (\<lambda>b. b\<lparr>stop_reason := Some Done\<rparr>) (filter (stop_fn env) post),
            l @ map (\<lambda>b. b\<lparr>stop_reason := Some Length\<rparr>)
                  (filter (\<lambda>b. \<not> stop_fn env b \<and> too_long cfg b) post),
            n @ filter (\<lambda>b. \<not> stop_fn env b \<and> \<not> too_long cfg b) post)"
proof
  show "classify env cfg [b] (f, l, n) = (f @ [b\<lparr>stop_reason := Some Done\<rparr>], l, n)"
    using assms(1) by simp
next
  have "classify env cfg (pre @ b # post) (fin, lng, []) =
          classify env cfg (b # post) (f, l, n)"
    by (simp only: classify_append assms(3))
  also have "\<dots> = classify env cfg post (f @ [b\<lparr>stop_reason := Some Done\<rparr>], l, n)"
    using assms(1) by simp
  finally show "classify env cfg (pre @ b # post) (fin, lng, []) =
           (f @ b\<lparr>stop_reason := Some Done\<rparr> #
                map (\<lambda>b. b\<lparr>stop_reason := Some Done\<rparr>) (filter (stop_fn env) post),
            l @ map (\<lambda>b. b\<lparr>stop_reason := Some Length\<rparr>)
                  (filter (\<lambda>b. \<not> stop_fn env b \<and> too_long cfg b) post),
            n @ filter (\<lambda>b. \<not> stop_fn env b \<and> \<not> too_long cfg b) post)"
    by (simp add: classify_acc)
qed

theorem stop_fn_precedes_too_long_witness:
  "stop_fn demo_env (Beam [5, 9]) \<and> too_long demo_cfg (Beam [5, 9]) \<and>
   classify demo_env demo_cfg [Beam [5, 7]] ([], [], []) =
     ([], [(Beam [5, 7])\<lparr>stop_reason := Some Length\<rparr>], []) \<and>
   classify demo_env demo_cfg [Beam [5, 7], Beam [5, 9], Beam [5]] ([], [], []) =
     ([(Beam [5, 9])\<lparr>stop_reason := Some Done\<rparr>],
      [(Beam [5, 7])\<lparr>stop_reason := Some Length\<rparr>], [Beam [5]])"
proof -
  have s: "stop_fn demo_env (Beam [5, 9])"
    by (simp add: demo_env_def ends_with_def Beam_def)
  have t: "too_long demo_cfg (Beam [5, 9])"
    by (simp add: demo_cfg_def too_long_def beam_len_def Beam_def)
  have p: "classify demo_env demo_cfg [Beam [5, 7]] ([], [], []) =
             ([], [(Beam [5, 7])\<lparr>stop_reason := Some Length\<rparr>], [])"
    by (simp add: demo_env_def demo_cfg_def ends_with_def too_long_def beam_len_def Beam_def)
  from stop_fn_precedes_too_long[OF s t p, of "[Beam [5]]"] s t p show ?thesis
    by (simp add: demo_env_def demo_cfg_def ends_with_def too_long_def beam_len_def Beam_def)
qed

text \<open>
  C1. In a filter step over \<open>n\<close> elements, let \<open>fin'\<close> and \<open>new\<close> be the finished list
  and the alive beams of element \<open>idx\<close> after its beams have been classified. If \<open>new\<close>
  is not empty and \<open>fin'\<close> holds fewer than \<^verbatim>\<open>beam_width\<close> beams, the element's alive list
  after the step is \<open>new\<close>: no beam is abandoned. If the stop condition is
  \<^verbatim>\<open>max_outputs\<close> and \<open>fin'\<close> holds at least \<^verbatim>\<open>beam_width\<close> beams, the element's alive
  list after the step is empty. The beams handed to the next decoding call are the alive
  lists after the step, so a cleared element contributes none.
\<close>

theorem enough_finished_before_stopping:
  assumes "filter_beams env cfg n L = Inr (L', bs, idxs)" and "idx < n"
    and "classify env cfg (current_beams L ! idx)
           (finished_beams L ! idx, too_long_beams L ! idx, []) = (fin', lng', new)"
  shows "finished_beams L' ! idx = fin' \<and> too_long_beams L' ! idx = lng' \<and>
         (new \<noteq> [] \<and> int (length fin') < beam_width cfg \<longrightarrow> current_beams L' ! idx = new) \<and>
         (stop_condition cfg = ''max_outputs'' \<and> beam_width cfg \<le> int (length fin')
            \<longrightarrow> current_beams L' ! idx = []) \<and>
         bs = concat (map (\<lambda>i. current_beams L' ! i) [0..<n])"
proof -
  from assms(1) have "bs = concat (map (\<lambda>i. current_beams L' ! i) [0..<n])"
    by (auto simp: filter_beams_def flatten_beams_def split: sum.splits if_splits)
  with filter_beams_element[OF assms(1,2)] assms(3) show ?thesis
    by (auto simp: filter_element_def Let_def split: if_splits sum.splits)
qed

lemma filter_two_lists:
  "filter_beams demo_env outputs_cfg 2 two_lists =
     Inr (\<lparr>current_beams = [[Beam [5]], []],
           finished_beams = [[], [(Beam [5, 9])\<lparr>stop_reason := Some Done\<rparr>]],
           too_long_beams = [[], []]\<rparr>, [Beam [5]], [0])"
  by (simp add: filter_beams_def filter_element_def flatten_beams_def getitem_def
      two_lists_def outputs_cfg_def demo_env_def demo_cfg_def ends_with_def too_long_def
      beam_len_def Beam_def upt_rec)

theorem enough_finished_before_stopping_witness:
  "(\<exists>L'. filter_beams demo_env outputs_cfg 2 two_lists = Inr (L', [Beam [5]], [0]) \<and>
         current_beams L' ! 0 = [Beam [5]] \<and> current_beams L' ! 1 = [] \<and>
         finished_beams L' ! 1 = [(Beam [5, 9])\<lparr>stop_reason := Some Done\<rparr>]) \<and>
   classify demo_env outputs_cfg (current_beams two_lists ! 0)
     (finished_beams two_lists ! 0, too_long_beams two_lists ! 0, []) = ([], [], [Beam [5]]) \<and>
   int (length ([] :: beam list)) < beam_width outputs_cfg \<and>
   classify demo_env outputs_cfg (current_beams two_lists ! 1)
     (finished_beams two_lists ! 1, too_long_beams two_lists ! 1, []) =
     ([(Beam [5, 9])\<lparr>stop_reason := Some Done\<rparr>], [], [Beam [5]]) \<and>
   stop_condition outputs_cfg = ''max_outputs'' \<and>
   beam_width outputs_cfg \<le> int (length [(Beam [5, 9])\<lparr>stop_reason := Some Done\<rparr>])"
proof -
  have c0: "classify demo_env outputs_cfg (current_beams two_lists ! 0)
     (finished_beams two_lists ! 0, too_long_beams two_lists ! 0, []) = ([], [], [Beam [5]])"
    by (simp add: two_lists_def outputs_cfg_def demo_env_def demo_cfg_def ends_with_def
        too_long_def beam_len_def Beam_def)
  have c1: "classify demo_env outputs_cfg (current_beams two_lists ! 1)
     (finished_beams two_lists ! 1, too_long_beams two_lists ! 1, []) =
     ([(Beam [5, 9])\<lparr>stop_reason := Some Done\<rparr>], [], [Beam [5]])"
    by (simp add: two_lists_def outputs_cfg_def demo_env_def demo_cfg_def ends_with_def
        too_long_def beam_len_def Beam_def)
  have cfg: "stop_condition outputs_cfg = ''max_outputs''" "beam_width outputs_cfg = 1"
    by (simp_all add: outputs_cfg_def demo_cfg_def)
  from enough_finished_before_stopping[OF filter_two_lists _ c0]
       enough_finished_before_stopping[OF filter_two_lists _ c1]
       filter_two_lists c0 c1 cfg
  show ?thesis by simp
qed

text \<open>
  C3. Under \<^verbatim>\<open>max_score\<close>, with a validated configuration, take an element that after
  classification has at least \<^verbatim>\<open>beam_width\<close> finished beams \<open>fin'\<close> and a non-empty list
  \<open>new\<close> of alive beams, all with at least one token. Every alive beam is scored at the
  length \<open>min (max_length - initial_length) max_new_tokens\<close> (without the second
  argument when \<^verbatim>\<open>max_new_tokens\<close> is not set), where the initial length is that of the
  element's first alive beam; the alive list is emptied exactly when the least score of
  \<open>fin'\<close> is at least the greatest of these projected scores, and is \<open>new\<close> otherwise.
\<close>

theorem max_score_projection:
  assumes "filter_beams env cfg n L = Inr (L', bs, idxs)" and "idx < n"
    and "classify env cfg (current_beams L ! idx)
           (finished_beams L ! idx, too_long_beams L ! idx, []) = (fin', lng', new)"
    and "stop_condition cfg = ''max_score''"
    and "new \<noteq> []" and "beam_width cfg \<le> int (length fin')" and "1 \<le> beam_width cfg"
    and "\<forall>b \<in> set new. token_ids b \<noteq> []"
    and "\<forall>m. max_new_tokens cfg = Some m \<longrightarrow> 0 < m"
  shows "current_beams L' ! idx =
           (if Max ((\<lambda>b. score_fn env b
                      (Some (case max_new_tokens cfg of
                               None \<Rightarrow> max_length cfg - int (initial_length (hd new))
                             | Some m \<Rightarrow> min (max_length cfg - int (initial_length (hd new))) m)))
                    ` set new)
               \<le> Min ((\<lambda>b. score_fn env b None) ` set fin')
            then [] else new)"
proof -
  obtain current rest where new: "new = current # rest"
    using assms(5) by (cases new) auto
  have fin: "fin' \<noteq> []" using assms(6,7) by auto
  have pl: "projected_length cfg current =
              (case max_new_tokens cfg of
                 None \<Rightarrow> max_length cfg - int (initial_length (hd new))
               | Some m \<Rightarrow> min (max_length cfg - int (initial_length (hd new))) m)"
    using assms(9) by (auto simp: projected_length_def or_default_def Let_def new split: option.splits)
  have tr: "filter truthy new = new"
    using assms(8) by (simp add: truthy_def)
  have best: "best_current env cfg new =
                Inr (Max ((\<lambda>b. score_fn env b (Some (projected_length cfg current))) ` set new))"
  proof -
    have "best_current env cfg new =
            py_max (map (\<lambda>b. score_fn env b (Some (projected_length cfg current)))
                      (filter truthy new))"
      using assms(4) by (simp add: best_current_def new)
    also have "\<dots> = Inr (Max (set (map (\<lambda>b. score_fn env b (Some (projected_length cfg current))) new)))"
      unfolding tr using assms(5) by (intro py_max_Max) simp
    finally show ?thesis by simp
  qed
  have worst: "py_min_default (map (\<lambda>b. score_fn env b None) fin') =
                 Some (Min ((\<lambda>b. score_fn env b None) ` set fin'))"
    using py_min_default_Min[of "map (\<lambda>b. score_fn env b None) fin'"] fin by simp
  have el: "filter_element env cfg (current_beams L ! idx) (finished_beams L ! idx)
              (too_long_beams L ! idx) =
            Inr ((if Max ((\<lambda>b. score_fn env b (Some (projected_length cfg current))) ` set new)
                       \<le> Min ((\<lambda>b. score_fn env b None) ` set fin')
                  then [] else new), fin', lng')"
    using assms(4,5,6)
    by (simp add: filter_element_def assms(3) best worst Let_def)
  from filter_beams_element[OF assms(1,2)] el show ?thesis
    by (auto simp: pl split: if_splits)
qed

lemma filter_score_lists:
  "filter_beams demo_env score_cfg 2 score_lists =
     Inr (\<lparr>current_beams = [[Beam [5]], []],
           finished_beams = [[(Beam [5, 9])\<lparr>stop_reason := Some Done\<rparr>],
                             [(Beam [9])\<lparr>stop_reason := Some Done\<rparr>]],
           too_long_beams = [[], []]\<rparr>, [Beam [5]], [0])"
  by (simp add: filter_beams_def filter_element_def flatten_beams_def getitem_def
      best_current_def projected_length_def or_default_def truthy_def demo_score_def
      score_lists_def score_cfg_def demo_env_def demo_cfg_def ends_with_def too_long_def
      beam_len_def decoded_length_def Beam_def upt_rec)

theorem max_score_projection_witness:
  "(\<exists>L'. filter_beams demo_env score_cfg 2 score_lists = Inr (L', [Beam [5]], [0]) \<and>
         current_beams L' ! 0 = [Beam [5]] \<and> current_beams L' ! 1 = []) \<and>
   classify demo_env score_cfg (current_beams score_lists ! 0)
     (finished_beams score_lists ! 0, too_long_beams score_lists ! 0, []) =
     ([(Beam [5, 9])\<lparr>stop_reason := Some Done\<rparr>], [], [Beam [5]]) \<and>
   classify demo_env score_cfg (current_beams score_lists ! 1)
     (finished_beams score_lists ! 1, too_long_beams score_lists ! 1, []) =
     ([(Beam [9])\<lparr>stop_reason := Some Done\<rparr>], [], [Beam [5, 5, 5]]) \<and>
   stop_condition score_cfg = ''max_score'' \<and> beam_width score_cfg = 1 \<and>
   max_new_tokens score_cfg = Some 2 \<and>
   score_fn demo_env (Beam [5]) (Some 2) = 0 \<and>
   score_fn demo_env ((Beam [5, 9])\<lparr>stop_reason := Some Done\<rparr>) None = - 2 \<and>
   score_fn demo_env (Beam [5, 5, 5]) (Some 1) = - 5 \<and>
   score_fn demo_env ((Beam [9])\<lparr>stop_reason := Some Done\<rparr>) None = - 1"
proof -
  have c0: "classify demo_env score_cfg (current_beams score_lists ! 0)
     (finished_beams score_lists ! 0, too_long_beams score_lists ! 0, []) =
     ([(Beam [5, 9])\<lparr>stop_reason := Some Done\<rparr>], [], [Beam [5]])"
    by (simp add: score_lists_def score_cfg_def demo_env_def demo_cfg_def ends_with_def
        too_long_def beam_len_def decoded_length_def Beam_def)
  have c1: "classify demo_env score_cfg (current_beams score_lists ! 1)
     (finished_beams score_lists ! 1, too_long_beams score_lists ! 1, []) =
     ([(Beam [9])\<lparr>stop_reason := Some Done\<rparr>], [], [Beam [5, 5, 5]])"
    by (simp add: score_lists_def score_cfg_def demo_env_def demo_cfg_def ends_with_def
        too_long_def beam_len_def decoded_length_def Beam_def)
  have cfg: "stop_condition score_cfg = ''max_score''" "beam_width score_cfg = 1"
    "max_new_tokens score_cfg = Some 2" "max_length score_cfg = 4"
    by (simp_all add: score_cfg_def demo_cfg_def)
  have sc: "score_fn demo_env (Beam [5]) (Some 2) = 0"
    "score_fn demo_env ((Beam [5, 9])\<lparr>stop_reason := Some Done\<rparr>) None = - 2"
    "score_fn demo_env (Beam [5, 5, 5]) (Some 1) = - 5"
    "score_fn demo_env ((Beam [9])\<lparr>stop_reason := Some Done\<rparr>) None = - 1"
    by (simp_all add: demo_env_def demo_score_def Beam_def)
  have i: "initial_length (Beam [5]) = 1" "initial_length (Beam [5, 5, 5]) = 3"
    "token_ids (Beam [5]) \<noteq> []" "token_ids (Beam [5, 5, 5]) \<noteq> []"
    by (simp_all add: Beam_def)
  from max_score_projection[OF filter_score_lists _ c0 cfg(1)]
       max_score_projection[OF filter_score_lists _ c1 cfg(1)]
       filter_score_lists c0 c1 cfg sc i
  show ?thesis by simp
qed

section \<open>The pruning step\<close>

lemma prune_loop_fst:
  "int (length cur) < bw \<Longrightarrow>
     fst (prune_loop upd bw xs (cur, seen)) = take (nat bw) (cur @ List.map_filter upd xs)"
proof (induction xs arbitrary: cur seen)
  case Nil
  then show ?case by simp
next
  case (Cons x xs)
  show ?case
  proof (cases "upd x")
    case None
    then show ?thesis using Cons.IH[OF Cons.prems] by simp
  next
    case (Some c)
    show ?thesis
    proof (cases "int (length (cur @ [c])) \<ge> bw")
      case True
      with Cons.prems have "nat bw = length cur + 1" by simp
      with Some True show ?thesis by simp
    next
      case False
      then have "int (length (cur @ [c])) < bw" by simp
      from Cons.IH[OF this] Some False show ?thesis by simp
    qed
  qed
qed

lemma prune_loop_seen:
  "int (length cur) < bw \<Longrightarrow> prune_loop upd bw xs (cur, seen) = (cur', seen') \<Longrightarrow>
     \<exists>used rest. xs = used @ rest \<and> seen' = seen @ used \<and>
       cur' = cur @ List.map_filter upd used \<and>
       int (length cur') \<le> bw \<and>
       (int (length cur') < bw \<longrightarrow> rest = []) \<and>
       (int (length cur') = bw \<longrightarrow> used \<noteq> [] \<and> upd (last used) \<noteq> None)"
proof (induction xs arbitrary: cur seen)
  case Nil
  then show ?case by simp
next
  case (Cons x xs)
  show ?case
  proof (cases "upd x")
    case None
    with Cons.prems have "prune_loop upd bw xs (cur, seen @ [x]) = (cur', seen')" by simp
    from Cons.IH[OF Cons.prems(1) this] obtain used rest where
      u: "xs = used @ rest" "seen' = (seen @ [x]) @ used" "cur' = cur @ List.map_filter upd used"
         "int (length cur') \<le> bw" "int (length cur') < bw \<longrightarrow> rest = []"
         "int (length cur') = bw \<longrightarrow> used \<noteq> [] \<and> upd (last used) \<noteq> None"
      by blast
    have "x # xs = (x # used) @ rest \<and> seen' = seen @ (x # used) \<and>
          cur' = cur @ List.map_filter upd (x # used) \<and> int (length cur') \<le> bw \<and>
          (int (length cur') < bw \<longrightarrow> rest = []) \<and>
          (int (length cur') = bw \<longrightarrow> x # used \<noteq> [] \<and> upd (last (x # used)) \<noteq> None)"
      using u None by simp
    then show ?thesis by (intro exI)
  next
    case (Some c)
    show ?thesis
    proof (cases "int (length (cur @ [c])) \<ge> bw")
      case True
      with Some Cons.prems have r: "cur' = cur @ [c]" "seen' = seen @ [x]" by auto
      from True Cons.prems(1) have l: "int (length (cur @ [c])) = bw" by simp
      have "x # xs = [x] @ xs \<and> seen' = seen @ [x] \<and>
          cur' = cur @ List.map_filter upd [x] \<and> int (length cur') \<le> bw \<and>
          (int (length cur') < bw \<longrightarrow> xs = []) \<and>
          (int (length cur') = bw \<longrightarrow> [x] \<noteq> [] \<and> upd (last [x]) \<noteq> None)"
        using r l Some by simp
      then show ?thesis by (intro exI)
    next
      case False
      then have lt: "int (length (cur @ [c])) < bw" by simp
      from False Some Cons.prems have
        "prune_loop upd bw xs (cur @ [c], seen @ [x]) = (cur', seen')" by simp
      from Cons.IH[OF lt this] obtain used rest where
        u: "xs = used @ rest" "seen' = (seen @ [x]) @ used"
           "cur' = (cur @ [c]) @ List.map_filter upd used"
           "int (length cur') \<le> bw" "int (length cur') < bw \<longrightarrow> rest = []"
           "int (length cur') = bw \<longrightarrow> used \<noteq> [] \<and> upd (last used) \<noteq> None"
        by blast
      have "x # xs = (x # used) @ rest \<and> seen' = seen @ (x # used) \<and>
          cur' = cur @ List.map_filter upd (x # used) \<and> int (length cur') \<le> bw \<and>
          (int (length cur') < bw \<longrightarrow> rest = []) \<and>
          (int (length cur') = bw \<longrightarrow> x # used \<noteq> [] \<and> upd (last (x # used)) \<noteq> None)"
        using u Some by simp
      then show ?thesis by (intro exI)
    qed
  qed
qed

lemma sorted_desc_props:
  "mset (sorted_desc key xs) = mset xs \<and>
   sorted_wrt (\<lambda>a b. key b \<le> key a) (sorted_desc key xs)"
proof -
  have "sorted (map (\<lambda>b. - key b) (sort_key (\<lambda>b. - key b) xs))"
    by (rule sorted_sort_key)
  then have "sorted_wrt (\<lambda>a b. - key a \<le> - key b) (sort_key (\<lambda>b. - key b) xs)"
    by (simp add: sorted_map)
  then show ?thesis by (simp add: sorted_desc_def)
qed

text \<open>
  C6, as the code has it. The candidates of an element are sorted by score, descending,
  before the update hook sees them: the sorted list has the same candidates, each as
  often, and no candidate comes before one with a higher score. The hook is applied in
  that order and only until \<^verbatim>\<open>beam_width\<close> candidates have survived it: the new alive list
  is made of the first \<^verbatim>\<open>beam_width\<close> survivors in that order, as the hook returned them.
  The candidates handed to the hook are a prefix of the sorted candidates: all of them
  when fewer than \<^verbatim>\<open>beam_width\<close> survive, and otherwise the prefix that ends with the
  \<^verbatim>\<open>beam_width\<close>-th survivor, where the loop breaks; the candidates after it are neither
  updated nor kept.
\<close>

theorem prune_sorts_then_updates:
  assumes "1 \<le> beam_width cfg" and "prune env cfg candidates = (kept, updated)"
  shows "kept = take (nat (beam_width cfg))
                  (List.map_filter (update_fn env)
                     (sorted_desc (\<lambda>b. score_fn env b None) candidates)) \<and>
         (\<exists>rest. sorted_desc (\<lambda>b. score_fn env b None) candidates = updated @ rest \<and>
                 mset (updated @ rest) = mset candidates \<and>
                 sorted_wrt (\<lambda>a b. score_fn env b None \<le> score_fn env a None)
                   (updated @ rest) \<and>
                 kept = List.map_filter (update_fn env) updated \<and>
                 int (length kept) \<le> beam_width cfg \<and>
                 (int (length kept) < beam_width cfg \<longrightarrow> rest = []) \<and>
                 (int (length kept) = beam_width cfg \<longrightarrow>
                    updated \<noteq> [] \<and> update_fn env (last updated) \<noteq> None))"
proof -
  have lt: "int (length ([] :: beam list)) < beam_width cfg" using assms(1) by simp
  from prune_loop_fst[OF lt, of "update_fn env"
         "sorted_desc (\<lambda>b. score_fn env b None) candidates" "[]"] assms(2)
  have k: "kept = take (nat (beam_width cfg))
                  (List.map_filter (update_fn env)
                     (sorted_desc (\<lambda>b. score_fn env b None) candidates))"
    by (simp add: prune_def)
  from prune_loop_seen[OF lt, of "update_fn env" _ "[]" kept updated] assms(2)
  have "\<exists>rest. sorted_desc (\<lambda>b. score_fn env b None) candidates = updated @ rest \<and>
                 kept = List.map_filter (update_fn env) updated \<and>
                 int (length kept) \<le> beam_width cfg \<and>
                 (int (length kept) < beam_width cfg \<longrightarrow> rest = []) \<and>
                 (int (length kept) = beam_width cfg \<longrightarrow>
                    updated \<noteq> [] \<and> update_fn env (last updated) \<noteq> None)"
    by (auto simp: prune_def)
  then obtain rest where
    r: "sorted_desc (\<lambda>b. score_fn env b None) candidates = updated @ rest"
       "kept = List.map_filter (update_fn env) updated"
       "int (length kept) \<le> beam_width cfg"
       "int (length kept) < beam_width cfg \<longrightarrow> rest = []"
       "int (length kept) = beam_width cfg \<longrightarrow>
          updated \<noteq> [] \<and> update_fn env (last updated) \<noteq> None"
    by blast
  from sorted_desc_props[of "\<lambda>b. score_fn env b None" candidates] r(1) have
    s: "mset (updated @ rest) = mset candidates"
       "sorted_wrt (\<lambda>a b. score_fn env b None \<le> score_fn env a None) (updated @ rest)"
    by simp_all
  from r s have "\<exists>rest. sorted_desc (\<lambda>b. score_fn env b None) candidates = updated @ rest \<and>
                 mset (updated @ rest) = mset candidates \<and>
                 sorted_wrt (\<lambda>a b. score_fn env b None \<le> score_fn env a None)
                   (updated @ rest) \<and>
                 kept = List.map_filter (update_fn env) updated \<and>
                 int (length kept) \<le> beam_width cfg \<and>
                 (int (length kept) < beam_width cfg \<longrightarrow> rest = []) \<and>
                 (int (length kept) = beam_width cfg \<longrightarrow>
                    updated \<noteq> [] \<and> update_fn env (last updated) \<noteq> None)"
    by blast
  with k show ?thesis by simp
qed

lemmas rank_defs =
  rank_env_def exact_env_def skew_decode_def demo_env_def demo_sample_def wide_cfg_def
  demo_cfg_def ends_with_def exact_log_softmax_def penalise_repeat_def loglik_score_def
  finite_part_def ranked_def penalised_def rank_candidates_def rank_state1_def
  rank_state2_def rank_call2_def chain_call1_def seed_state_def

lemma ln_2_bounds: "ln (2::real) < 5" "- ln (2::real) \<le> 5"
proof -
  have "0 < ln (2::real)" by simp
  with ln_2_less_1 show "ln (2::real) < 5" "- ln (2::real) \<le> 5" by linarith+
qed

lemma rank_round1:
  "round_step rank_env wide_cfg (Suc 0) seed_state = Inr rank_state1"
  by (simp add: model_defs rank_defs)

lemma rank_expand:
  "expand (beam_width wide_cfg = 1) (beams rank_state1) [[0, 1], [0, 1]]
     [[True, True], [True, True]]
     [[Fin (ln 2 - ln 3), Fin (- ln 3)], [Fin (ln 2 - ln 3), Fin (- ln 3)]] 0
     (indices rank_state1) (replicate (Suc 0) []) = Inr [rank_candidates]"
  by (simp add: model_defs rank_defs)

lemma rank_sorted:
  "sorted_desc (\<lambda>b. score_fn rank_env b None) rank_candidates = rank_candidates"
  by (simp add: sorted_desc_def rank_defs)

lemma rank_prune:
  "prune rank_env wide_cfg rank_candidates =
     ([penalised, ranked [5, 0, 1] 0], [ranked [5, 0, 0] 0, ranked [5, 0, 1] 0])"
  by (simp add: prune_def sorted_desc_def rank_defs)

lemma rank_round2:
  "round_step rank_env wide_cfg (Suc 0) rank_state1 = Inr rank_state2"
  by (simp add: model_defs rank_defs)

theorem prune_sorts_then_updates_witness:
  "1 \<le> beam_width wide_cfg \<and>
   prune rank_env wide_cfg rank_candidates =
     ([penalised, ranked [5, 0, 1] 0], [ranked [5, 0, 0] 0, ranked [5, 0, 1] 0]) \<and>
   [penalised, ranked [5, 0, 1] 0] =
     take (nat (beam_width wide_cfg))
       (List.map_filter (update_fn rank_env)
          (sorted_desc (\<lambda>b. score_fn rank_env b None) rank_candidates)) \<and>
   sorted_desc (\<lambda>b. score_fn rank_env b None) rank_candidates =
     [ranked [5, 0, 0] 0, ranked [5, 0, 1] 0] @ [ranked [5, 1, 0] 1, ranked [5, 1, 1] 1] \<and>
   int (length [penalised, ranked [5, 0, 1] 0]) = beam_width wide_cfg \<and>
   update_fn rank_env (last [ranked [5, 0, 0] 0, ranked [5, 0, 1] 0]) \<noteq> None"
proof -
  have bw: "1 \<le> beam_width wide_cfg"
    "int (length [penalised, ranked [5, 0, 1] 0]) = beam_width wide_cfg"
    by (simp_all add: wide_cfg_def demo_cfg_def)
  from prune_sorts_then_updates[OF bw(1) rank_prune]
  have t: "[penalised, ranked [5, 0, 1] 0] =
             take (nat (beam_width wide_cfg))
               (List.map_filter (update_fn rank_env)
                  (sorted_desc (\<lambda>b. score_fn rank_env b None) rank_candidates))"
    and u: "int (length [penalised, ranked [5, 0, 1] 0]) = beam_width wide_cfg \<longrightarrow>
              [ranked [5, 0, 0] 0, ranked [5, 0, 1] 0] \<noteq> [] \<and>
              update_fn rank_env (last [ranked [5, 0, 0] 0, ranked [5, 0, 1] 0]) \<noteq> None"
    by blast+
  from u bw(2) have "update_fn rank_env (last [ranked [5, 0, 0] 0, ranked [5, 0, 1] 0]) \<noteq> None"
    by blast
  moreover have "sorted_desc (\<lambda>b. score_fn rank_env b None) rank_candidates =
     [ranked [5, 0, 0] 0, ranked [5, 0, 1] 0] @ [ranked [5, 1, 0] 1, ranked [5, 1, 1] 1]"
    by (simp add: rank_sorted) (simp add: rank_candidates_def)
  ultimately show ?thesis using bw rank_prune t by blast
qed

text \<open>
  C6 as stated fails. Take the run from the seed \<open>[5]\<close> with a beam width of two, a model
  that makes token 0 twice as likely as token 1, the log-likelihood score and a hook that
  penalises a repeated token. The second round has the four candidates \<open>[5, 0, 0]\<close>,
  \<open>[5, 0, 1]\<close>, \<open>[5, 1, 0]\<close> and \<open>[5, 1, 1]\<close>, sorted in that order. The code hands the first
  two to the hook and breaks: it keeps \<open>[5, 0, 0]\<close>, whose score the hook has lowered below
  all the others, and \<open>[5, 0, 1]\<close>, and the hook never sees the other two. Updating every
  candidate and then keeping the two best keeps \<open>[5, 0, 1]\<close> and \<open>[5, 1, 0]\<close>.
\<close>

theorem prune_counterexample:
  "round_step rank_env wide_cfg (Suc 0) seed_state = Inr rank_state1 \<and>
   expand (beam_width wide_cfg = 1) (beams rank_state1) [[0, 1], [0, 1]]
     [[True, True], [True, True]]
     [[Fin (ln 2 - ln 3), Fin (- ln 3)], [Fin (ln 2 - ln 3), Fin (- ln 3)]] 0
     (indices rank_state1) (replicate (Suc 0) []) = Inr [rank_candidates] \<and>
   beam_width wide_cfg = 2 \<and>
   fst (prune rank_env wide_cfg rank_candidates) = [penalised, ranked [5, 0, 1] 0] \<and>
   snd (prune rank_env wide_cfg rank_candidates) = [ranked [5, 0, 0] 0, ranked [5, 0, 1] 0] \<and>
   round_step rank_env wide_cfg (Suc 0) rank_state1 = Inr rank_state2 \<and>
   beams rank_state2 = [penalised, ranked [5, 0, 1] 0] \<and>
   prune_as_specified rank_env wide_cfg rank_candidates =
     [ranked [5, 0, 1] 0, ranked [5, 1, 0] 1] \<and>
   fst (prune rank_env wide_cfg rank_candidates) \<noteq>
     prune_as_specified rank_env wide_cfg rank_candidates"
proof -
  have spec: "prune_as_specified rank_env wide_cfg rank_candidates =
                [ranked [5, 0, 1] 0, ranked [5, 1, 0] 1]"
    using ln_2_bounds
    by (simp add: prune_as_specified_def slice_to_def sorted_desc_def rank_defs
        List.map_filter_simps)
  have ne: "[penalised, ranked [5, 0, 1] 0] \<noteq> [ranked [5, 0, 1] 0, ranked [5, 1, 0] 1]"
    by (simp add: penalised_def ranked_def)
  have bw: "beam_width wide_cfg = 2" by (simp add: wide_cfg_def demo_cfg_def)
  have b2: "beams rank_state2 = [penalised, ranked [5, 0, 1] 0]"
    by (simp add: rank_state2_def)
  have k: "fst (prune rank_env wide_cfg rank_candidates) = [penalised, ranked [5, 0, 1] 0]"
    "snd (prune rank_env wide_cfg rank_candidates) = [ranked [5, 0, 0] 0, ranked [5, 0, 1] 0]"
    by (simp_all add: rank_prune)
  from k(1) spec ne have d: "fst (prune rank_env wide_cfg rank_candidates) \<noteq>
                               prune_as_specified rank_env wide_cfg rank_candidates"
    by simp
  show ?thesis
    by (intro conjI rank_round1 rank_expand bw k rank_round2 b2 spec d)
qed

section \<open>Membership in the three lists\<close>

text \<open>
  C2 fails on the code. \<^verbatim>\<open>get_outputs\<close> extends the list object \<^verbatim>\<open>finished_beams[batch_idx]\<close>
  in place when it backfills from the too-long list. With \<^verbatim>\<open>yield_intermediate\<close> and
  \<^verbatim>\<open>return_unfinished\<close> enabled and a beam width of two, the run from the seed \<open>[5]\<close>
  with one candidate per round and a maximal length of three ends its loop with the one
  too-long beam in both the finished and the too-long list, and the final call of
  \<^verbatim>\<open>get_outputs\<close> appends it again: the finished list and the returned output hold the
  same beam twice.
\<close>

theorem backfill_changes_finished_list:
  "run_loop chain_env backfill_cfg (Suc 0) seed_state = Some (Inr chain_state2) \<and>
   finished_beams (ls chain_state2) = [[chain_beam2]] \<and>
   too_long_beams (ls chain_state2) = [[chain_beam2]] \<and>
   beam_search chain_env backfill_cfg [Tokens [5]] =
     Some (Inr \<lparr>returned = [[chain_beam2, chain_beam2]],
                yields = [[[]], [[chain_beam2]]],
                made_calls = [chain_call1, CacheFnCall () [0] [1], chain_call2],
                final_lists = \<lparr>current_beams = [[]],
                                finished_beams = [[chain_beam2, chain_beam2]],
                                too_long_beams = [[chain_beam2]]\<rparr>\<rparr>) \<and>
   \<not> distinct [chain_beam2, chain_beam2]"
  using chain_loop chain_search by (simp add: chain_state2_def)

section \<open>The cache protocol\<close>












section \<open>Log-probabilities and logit filters\<close>

text \<open>
  C5, as the code has it. In a round the log-probabilities are computed from the logits
  that the decode callback returned, before any logit filter runs. The filters are then
  applied in sequence, and the sampler sees the filtered logits: the candidate token ids
  and their validity come from the filtered logits, while the log-probability appended
  to a child beam is the entry, for the child's last token, of the log-softmax of the
  unfiltered logits.
\<close>

theorem log_probs_from_unfiltered_logits:
  assumes "select env cfg bs logits = (lp, sel, valid)"
    and "expand single bs sel valid lp 0 idxs (replicate n []) = Inr bc"
  shows "lp = log_softmax env logits \<and>
         (sel, valid) =
           (case sample_fn env
                   (fold (\<lambda>logit_fn l. logit_fn l bs)
                      (case logit_fns env of None \<Rightarrow> [] | Some fs \<Rightarrow> fs) logits)
                   (beam_width cfg) of
              (ids, selected_logits) \<Rightarrow> (ids, map (map (\<lambda>x. x \<noteq> NegInf)) selected_logits)) \<and>
         (\<forall>cs \<in> set bc. \<forall>c \<in> set cs.
            \<exists>j < length bs.
              tensor_at (log_softmax env logits) j (last (token_ids c)) = Inr (last (log_probs c)))"
proof -
  from assms(1) have lp: "lp = log_softmax env logits"
    by (auto simp: select_def Let_def split: prod.splits)
  from assms(1) have sv: "(sel, valid) =
           (case sample_fn env
                   (fold (\<lambda>logit_fn l. logit_fn l bs)
                      (case logit_fns env of None \<Rightarrow> [] | Some fs \<Rightarrow> fs) logits)
                   (beam_width cfg) of
              (ids, selected_logits) \<Rightarrow> (ids, map (map (\<lambda>x. x \<noteq> NegInf)) selected_logits))"
    by (auto simp: select_def Let_def split: prod.splits)
  let ?P = "\<lambda>c. \<exists>j < length bs. tensor_at lp j (last (token_ids c)) = Inr (last (log_probs c))"
  have "\<forall>cs \<in> set bc. \<forall>c \<in> set cs. ?P c"
  proof (rule expand_all[OF assms(2)])
    show "\<forall>cs\<in>set (replicate n []). \<forall>c\<in>set cs. ?P c" by simp
  next
    fix j toks cands c
    assume j: "j < length bs" and
      r: "row_candidates single lp j ((bs ! j)\<lparr>cache := Some j\<rparr>) toks = Inr cands" and
      c: "c \<in> set cands"
    from row_candidates_props[OF r c] obtain ts where
      "ts \<noteq> []" "token_ids c = token_ids ((bs ! j)\<lparr>cache := Some j\<rparr>) @ ts"
      "tensor_at lp j (last ts) = Inr (last (log_probs c))"
      by blast
    with j show "?P c" by auto
  qed
  with lp sv show ?thesis by simp
qed

lemma select_ban:
  "select ban_env demo_cfg [Beam [5]] [[Fin 0, Fin 0]] =
     ([[Fin (- ln 2), Fin (- ln 2)]], [[0]], [[True]])"
  by (simp add: select_def ban_env_def demo_env_def demo_cfg_def demo_sample_def
      exact_log_softmax_def ban_token_def)

lemma expand_ban:
  "expand True [Beam [5]] [[0]] [[True]] [[Fin (- ln 2), Fin (- ln 2)]] 0 [0] (replicate 1 []) =
     Inr [[\<lparr>token_ids = [5, 0], log_probs = [Fin (- ln 2)], initial_length = 1,
            cache = Some 0, stop_reason = None\<rparr>]]"
  by (simp add: masked_row_def row_candidates_def tensor_at_def getitem_def add_def Beam_def)

theorem log_probs_from_unfiltered_logits_witness:
  "select ban_env demo_cfg [Beam [5]] [[Fin 0, Fin 0]] =
     ([[Fin (- ln 2), Fin (- ln 2)]], [[0]], [[True]]) \<and>
   expand True [Beam [5]] [[0]] [[True]] [[Fin (- ln 2), Fin (- ln 2)]] 0 [0] (replicate 1 []) =
     Inr [[\<lparr>token_ids = [5, 0], log_probs = [Fin (- ln 2)], initial_length = 1,
            cache = Some 0, stop_reason = None\<rparr>]] \<and>
   log_softmax ban_env [[Fin 0, Fin 0]] = [[Fin (- ln 2), Fin (- ln 2)]] \<and>
   tensor_at (log_softmax ban_env [[Fin 0, Fin 0]]) 0 0 = Inr (Fin (- ln 2))"
proof -
  from log_probs_from_unfiltered_logits[OF select_ban expand_ban]
  have "[[Fin (- ln 2), Fin (- ln 2)]] = log_softmax ban_env [[Fin 0, Fin 0]]"
    by (rule conjunct1)
  then have eq: "log_softmax ban_env [[Fin 0, Fin 0]] = [[Fin (- ln 2), Fin (- ln 2)]]"
    by (rule sym)
  have "tensor_at [[Fin (- ln 2), Fin (- ln 2)]] 0 0 = Inr (Fin (- ln 2))"
    by (simp add: tensor_at_def getitem_def)
  with eq have "tensor_at (log_softmax ban_env [[Fin 0, Fin 0]]) 0 0 = Inr (Fin (- ln 2))"
    by (simp only:)
  with select_ban expand_ban eq show ?thesis by (intro conjI)
qed

text \<open>
  C5 as stated fails. The model gives two tokens the logit 0 and a filter forbids the
  second. The child beam for the first token receives the log-probability \<open>- ln 2\<close>, the
  log-softmax of the unfiltered logits, where the log-softmax of the filtered logits is 0.
\<close>

theorem select_counterexample:
  "select ban_env demo_cfg [Beam [5]] [[Fin 0, Fin 0]] =
     ([[Fin (- ln 2), Fin (- ln 2)]], [[0]], [[True]]) \<and>
   select_as_specified ban_env demo_cfg [Beam [5]] [[Fin 0, Fin 0]] =
     ([[Fin 0, NegInf]], [[0]], [[True]]) \<and>
   expand True [Beam [5]] [[0]] [[True]] [[Fin (- ln 2), Fin (- ln 2)]] 0 [0] (replicate 1 []) =
     Inr [[\<lparr>token_ids = [5, 0], log_probs = [Fin (- ln 2)], initial_length = 1,
            cache = Some 0, stop_reason = None\<rparr>]] \<and>
   Fin (- ln 2) \<noteq> Fin 0"
proof -
  have "select_as_specified ban_env demo_cfg [Beam [5]] [[Fin 0, Fin 0]] =
          ([[Fin 0, NegInf]], [[0]], [[True]])"
    by (simp add: select_as_specified_def ban_env_def demo_env_def demo_cfg_def
        demo_sample_def exact_log_softmax_def ban_token_def)
  with select_ban expand_ban show ?thesis by simp
qed

section \<open>The length of the returned beams\<close>









section \<open>Termination\<close>











section \<open>Validation of the configuration\<close>

lemma init_lists_empty:
  assumes "\<exists>init \<in> set initial. init = Tokens [] \<or> (\<exists>b. init = Given b \<and> token_ids b = [])"
  shows "init_lists initial L = Inl (AssertionError ''initial beam or token ids cannot be empty'')"
  using assms
proof (induction initial arbitrary: L)
  case Nil
  then show ?case by simp
next
  case (Cons init rest)
  show ?case
  proof (cases "init = Tokens [] \<or> (\<exists>b. init = Given b \<and> token_ids b = [])")
    case True
    then show ?thesis by auto
  next
    case False
    with Cons.prems have
      "\<exists>init \<in> set rest. init = Tokens [] \<or> (\<exists>b. init = Given b \<and> token_ids b = [])"
      by auto
    from Cons.IH[OF this] show ?thesis by simp
  qed
qed

text \<open>
  C9, as the code has it. Before any call to a collaborator, \<^verbatim>\<open>beam_search\<close> fails an
  assertion when \<^verbatim>\<open>max_new_tokens\<close> is set and not positive, when \<^verbatim>\<open>stop_condition\<close> is
  none of \<^verbatim>\<open>max_score\<close>, \<^verbatim>\<open>estimated_score\<close> and \<^verbatim>\<open>max_outputs\<close>, when \<^verbatim>\<open>beam_width\<close>
  is below one, and when an initial token sequence or beam is empty. Nothing is said about
  \<^verbatim>\<open>max_length\<close>, which the code does not check.
\<close>

theorem invalid_configuration_rejected:
  assumes "(\<exists>m. max_new_tokens cfg = Some m \<and> m \<le> 0) \<or>
           stop_condition cfg \<notin> {''max_score'', ''estimated_score'', ''max_outputs''} \<or>
           beam_width cfg < 1 \<or>
           (\<exists>init \<in> set initial. init = Tokens [] \<or> (\<exists>b. init = Given b \<and> token_ids b = []))"
  shows "\<exists>msg. beam_search env cfg initial = Some (Inl (AssertionError msg, []))"
proof (cases "\<exists>m. max_new_tokens cfg = Some m \<and> m \<le> 0")
  case True
  then show ?thesis by (auto simp: beam_search_def)
next
  case m: False
  then have mt: "(case max_new_tokens cfg of None \<Rightarrow> True | Some n \<Rightarrow> n > 0)"
    by (auto split: option.splits)
  show ?thesis
  proof (cases "stop_condition cfg \<notin> {''max_score'', ''estimated_score'', ''max_outputs''}")
    case True
    with mt show ?thesis by (simp add: beam_search_def)
  next
    case s: False
    show ?thesis
    proof (cases "beam_width cfg < 1")
      case True
      with mt s show ?thesis by (simp add: beam_search_def)
    next
      case False
      with m s assms have
        "\<exists>init \<in> set initial. init = Tokens [] \<or> (\<exists>b. init = Given b \<and> token_ids b = [])"
        by blast
      from init_lists_empty[OF this] mt s False show ?thesis
        by (simp add: beam_search_def)
    qed
  qed
qed

theorem invalid_configuration_rejected_witness:
  "max_new_tokens (demo_cfg\<lparr>max_new_tokens := Some 0\<rparr>) = Some 0 \<and>
   (\<exists>msg. beam_search demo_env (demo_cfg\<lparr>max_new_tokens := Some 0\<rparr>) [Tokens [5]] =
            Some (Inl (AssertionError msg, []))) \<and>
   stop_condition (demo_cfg\<lparr>stop_condition := ''greedy''\<rparr>)
     \<notin> {''max_score'', ''estimated_score'', ''max_outputs''} \<and>
   (\<exists>msg. beam_search demo_env (demo_cfg\<lparr>stop_condition := ''greedy''\<rparr>) [Tokens [5]] =
            Some (Inl (AssertionError msg, []))) \<and>
   beam_width (demo_cfg\<lparr>beam_width := 0\<rparr>) < 1 \<and>
   (\<exists>msg. beam_search demo_env (demo_cfg\<lparr>beam_width := 0\<rparr>) [Tokens [5]] =
            Some (Inl (AssertionError msg, []))) \<and>
   (\<exists>msg. beam_search demo_env demo_cfg [Tokens [5], Tokens []] =
            Some (Inl (AssertionError msg, [])))"
proof -
  have a: "max_new_tokens (demo_cfg\<lparr>max_new_tokens := Some 0\<rparr>) = Some 0" by simp
  have b: "stop_condition (demo_cfg\<lparr>stop_condition := ''greedy''\<rparr>)
             \<notin> {''max_score'', ''estimated_score'', ''max_outputs''}" by simp
  have c: "beam_width (demo_cfg\<lparr>beam_width := 0\<rparr>) < 1" by simp
  have d: "\<exists>init \<in> set [Tokens [5], Tokens []].
             init = Tokens [] \<or> (\<exists>b. init = Given b \<and> token_ids b = [])" by simp
  from invalid_configuration_rejected[of "demo_cfg\<lparr>max_new_tokens := Some 0\<rparr>" "[Tokens [5]]" demo_env]
       invalid_configuration_rejected[of "demo_cfg\<lparr>stop_condition := ''greedy''\<rparr>" "[Tokens [5]]" demo_env]
       invalid_configuration_rejected[of "demo_cfg\<lparr>beam_width := 0\<rparr>" "[Tokens [5]]" demo_env]
       invalid_configuration_rejected[of demo_cfg "[Tokens [5], Tokens []]" demo_env]
       a b c d
  show ?thesis by auto
qed

text \<open>
  C9 as stated fails for \<^verbatim>\<open>max_length\<close>: with \<^verbatim>\<open>max_length = 0\<close> and an otherwise valid
  configuration the call is not rejected. The seed is classified as too long by the first
  filter step, the loop is not entered and the run returns an empty output.
\<close>

theorem max_length_not_validated:
  "max_length unbounded_cfg \<le> 0 \<and>
   beam_search demo_env unbounded_cfg [Tokens [5]] =
     Some (Inr \<lparr>returned = [[]], yields = [], made_calls = [],
                final_lists = \<lparr>current_beams = [[]], finished_beams = [[]],
                                too_long_beams =
                                  [[(Beam [5])\<lparr>stop_reason := Some Length\<rparr>]]\<rparr>\<rparr>)"
proof -
  have cfg: "max_new_tokens unbounded_cfg = None" "stop_condition unbounded_cfg = ''max_score''"
    "beam_width unbounded_cfg = 1" "max_length unbounded_cfg = 0"
    by (simp_all add: unbounded_cfg_def demo_cfg_def)
  have f0: "filter_beams demo_env unbounded_cfg (Suc 0)
              \<lparr>current_beams = [[Beam [5]]], finished_beams = [[]], too_long_beams = [[]]\<rparr> =
            Inr (\<lparr>current_beams = [[]], finished_beams = [[]],
                  too_long_beams = [[(Beam [5])\<lparr>stop_reason := Some Length\<rparr>]]\<rparr>, [], [])"
    by (simp add: model_defs unbounded_cfg_def demo_cfg_def demo_env_def ends_with_def)
  have loop: "run_loop demo_env unbounded_cfg (Suc 0)
                \<lparr>ls = \<lparr>current_beams = [[]], finished_beams = [[]],
                        too_long_beams = [[(Beam [5])\<lparr>stop_reason := Some Length\<rparr>]]\<rparr>,
                 beams = [], indices = [], cache_handle = None, calls = [],
                 yielded = []\<rparr> =
              Some (Inr \<lparr>ls = \<lparr>current_beams = [[]], finished_beams = [[]],
                        too_long_beams = [[(Beam [5])\<lparr>stop_reason := Some Length\<rparr>]]\<rparr>,
                 beams = [], indices = [], cache_handle = None, calls = [],
                 yielded = []\<rparr>)"
    by (subst run_loop.simps) simp
  have out: "get_outputs demo_env unbounded_cfg (Suc 0)
               \<lparr>current_beams = [[]], finished_beams = [[]],
                too_long_beams = [[(Beam [5])\<lparr>stop_reason := Some Length\<rparr>]]\<rparr> =
             Inr (\<lparr>current_beams = [[]], finished_beams = [[]],
                   too_long_beams = [[(Beam [5])\<lparr>stop_reason := Some Length\<rparr>]]\<rparr>, [[]])"
    by (simp add: model_defs unbounded_cfg_def demo_cfg_def demo_env_def)
  show ?thesis
    by (simp add: beam_search_def cfg f0 loop out)
qed

end
